theory Spec2Isabelle
  imports Main
begin

section \<open>JavaScript values\<close>

text \<open>
  The client types every response as \<open>any\<close>, so the model works on untyped values.
  A value is what \<open>JSON.parse\<close> can produce, plus \<open>undefined\<close> (the result of reading
  a property that is not there) and a built-in method (the result of reading
  \<open>search\<close> on a string, the one name this program reads that a primitive inherits).

  Numbers are mathematical integers: every number the program reads (ids, byte sizes,
  counts) is an integer far below \<open>2^53\<close>, where JavaScript's arithmetic and its decimal
  rendering are exact.  A string is the byte sequence of its UTF-8 encoding, which every
  well-formed JavaScript string has; the ASCII characters the program inspects (space,
  \<open><\<close>, \<open>>\<close>, the category prefix) are single bytes that occur nowhere inside a longer
  sequence.  Strings with an unpaired surrogate are outside this type.
\<close>

datatype json =
    JUndefined
  | JNull
  | JBool bool
  | JNum int
  | JStr string
  | JArr "json list"
  | JObj "(string \<times> json) list"
  | JFunction string

datatype js_error =
    Error string        \<comment> \<open>\<open>new Error(message)\<close> thrown by \<open>apiRequest\<close>\<close>
  | Rethrown string     \<comment> \<open>a failure that is not an Axios error, thrown on unchanged\<close>
  | TypeError           \<comment> \<open>a property read on \<open>null\<close>/\<open>undefined\<close>, or a call of a non-function\<close>

definition nullish :: "json \<Rightarrow> bool" where
  "nullish v = (v = JUndefined \<or> v = JNull)"

fun truthy :: "json \<Rightarrow> bool" where
  "truthy JUndefined = False"
| "truthy JNull = False"
| "truthy (JBool b) = b"
| "truthy (JNum n) = (n \<noteq> 0)"
| "truthy (JStr s) = (s \<noteq> [])"
| "truthy (JArr xs) = True"
| "truthy (JObj kvs) = True"
| "truthy (JFunction f) = True"

text \<open>\<open>a || b\<close>\<close>

definition js_or :: "json \<Rightarrow> json \<Rightarrow> json" where
  "js_or a b = (if truthy a then a else b)"

text \<open>
  The number of UTF-16 code units of a string given by its UTF-8 bytes: one for every
  byte that starts a character, and one more for a character of four bytes.
\<close>

definition utf16_length :: "string \<Rightarrow> nat" where
  "utf16_length s =
     length (filter (\<lambda>c. (of_char c :: nat) < 128 \<or> 192 \<le> (of_char c :: nat)) s) +
     length (filter (\<lambda>c. 240 \<le> (of_char c :: nat)) s)"

text \<open>
  \<open>s[0]\<close> on a string is its first code unit.  For a first character of four bytes that
  unit is an unpaired surrogate; nothing but its length can be read from it here, and a
  one-character placeholder stands for it.
\<close>

definition first_unit :: "string \<Rightarrow> string" where
  "first_unit s =
     (case s of
        [] \<Rightarrow> []
      | c # cs \<Rightarrow>
          if 240 \<le> (of_char c :: nat) then ''?''
          else c # takeWhile (\<lambda>d. 128 \<le> (of_char d :: nat) \<and> (of_char d :: nat) < 192) cs)"

text \<open>
  \<open>v.k\<close> for a value \<open>v\<close> that is neither \<open>null\<close> nor \<open>undefined\<close>, and a name \<open>k\<close> among
  those the program reads.
\<close>

fun property :: "json \<Rightarrow> string \<Rightarrow> json" where
  "property (JObj kvs) k = (case map_of kvs k of Some v \<Rightarrow> v | None \<Rightarrow> JUndefined)"
| "property (JArr xs) k = (if k = ''length'' then JNum (int (length xs)) else JUndefined)"
| "property (JStr s) k =
     (if k = ''length'' then JNum (int (utf16_length s))
      else if k = ''search'' then JFunction ''search''
      else JUndefined)"
| "property (JFunction f) k =
     (if k = ''length'' then JNum 1 else JUndefined)"
| "property v k = JUndefined"

text \<open>\<open>v.k\<close>: a \<open>TypeError\<close> when \<open>v\<close> is \<open>null\<close> or \<open>undefined\<close>.\<close>

definition member :: "json \<Rightarrow> string \<Rightarrow> js_error + json" where
  "member v k = (if nullish v then Inl TypeError else Inr (property v k))"

text \<open>\<open>v?.k\<close>\<close>

definition opt_member :: "json \<Rightarrow> string \<Rightarrow> json" where
  "opt_member v k = (if nullish v then JUndefined else property v k)"

text \<open>\<open>v[0]\<close> for a value that is neither \<open>null\<close> nor \<open>undefined\<close>.\<close>

fun index0 :: "json \<Rightarrow> json" where
  "index0 (JArr xs) = (case xs of [] \<Rightarrow> JUndefined | x # _ \<Rightarrow> x)"
| "index0 (JObj kvs) = property (JObj kvs) ''0''"
| "index0 (JStr s) = (if s = [] then JUndefined else JStr (first_unit s))"
| "index0 v = JUndefined"

text \<open>\<open>v?.[0]\<close>\<close>

definition opt_index0 :: "json \<Rightarrow> json" where
  "opt_index0 v = (if nullish v then JUndefined else index0 v)"

text \<open>\<open>v.length === 0\<close> for a truthy value \<open>v\<close>.\<close>

definition length_is_zero :: "json \<Rightarrow> bool" where
  "length_is_zero v = (property v ''length'' = JNum 0)"

subsection \<open>Conversion to text\<close>

text \<open>The decimal digits of a natural number, as a template literal prints them.\<close>

fun digits :: "nat \<Rightarrow> string" where
  "digits n =
     (if n < 10 then [''0123456789'' ! n]
      else digits (n div 10) @ [''0123456789'' ! (n mod 10)])"

declare digits.simps [simp del]

definition number_string :: "int \<Rightarrow> string" where
  "number_string n = (if n < 0 then CHR ''-'' # digits (nat (- n)) else digits (nat n))"

text \<open>\<open>xs.join(sep)\<close> on the texts of the elements.\<close>

fun join :: "string \<Rightarrow> string list \<Rightarrow> string" where
  "join sep [] = []"
| "join sep [x] = x"
| "join sep (x # y # ys) = x @ sep @ join sep (y # ys)"

text \<open>
  \<open>`${v}`\<close>: the text of a value.  An array prints its elements joined by commas, with
  \<open>null\<close> and \<open>undefined\<close> elements printed as nothing.
\<close>

fun js_string :: "json \<Rightarrow> string" where
  "js_string JUndefined = ''undefined''"
| "js_string JNull = ''null''"
| "js_string (JBool b) = (if b then ''true'' else ''false'')"
| "js_string (JNum n) = number_string n"
| "js_string (JStr s) = s"
| "js_string (JArr xs) =
     join '','' (map (\<lambda>x. if x = JUndefined \<or> x = JNull then [] else js_string x) xs)"
| "js_string (JObj kvs) = ''[object Object]''"
| "js_string (JFunction f) = ''function '' @ f @ ''() { [native code] }''"

text \<open>\<open>xs.join(sep)\<close> on an array of values.\<close>

definition array_join :: "string \<Rightarrow> json list \<Rightarrow> string" where
  "array_join sep xs = join sep (map (\<lambda>x. if nullish x then [] else js_string x) xs)"

text \<open>
  \<open>v?.map((e) => e.title)\<close>: \<open>undefined\<close> when \<open>v\<close> is \<open>null\<close> or \<open>undefined\<close>; a
  \<open>TypeError\<close> when \<open>v\<close> is not an array (it has no \<open>map\<close> to call) or an element is
  \<open>null\<close> or \<open>undefined\<close>.
\<close>

definition map_title :: "json \<Rightarrow> js_error + json list option" where
  "map_title v =
     (case v of
        JUndefined \<Rightarrow> Inr None
      | JNull \<Rightarrow> Inr None
      | JArr xs \<Rightarrow>
          if list_ex nullish xs then Inl TypeError
          else Inr (Some (map (\<lambda>e. property e ''title'') xs))
      | _ \<Rightarrow> Inl TypeError)"

text \<open>Sequencing of steps that may throw.\<close>

definition and_then :: "js_error + 'a \<Rightarrow> ('a \<Rightarrow> js_error + 'b) \<Rightarrow> js_error + 'b" where
  "and_then r f = (case r of Inl e \<Rightarrow> Inl e | Inr x \<Rightarrow> f x)"

text \<open>
  A value that may be absent, and what stands in for it: a parameter with a default
  (\<open>limit: number = 10\<close>) takes the default when the caller passes nothing, and
  \<open>v?.map(...) || []\<close> is the empty list when there was nothing to map.
\<close>

definition default_to :: "'a \<Rightarrow> 'a option \<Rightarrow> 'a" where
  "default_to d x = (case x of None \<Rightarrow> d | Some v \<Rightarrow> v)"

section \<open>The client\<close>

subsection \<open>Requests and the transport\<close>

text \<open>
  Request parameters are an object literal: keys in the order they were first written.
  Writing a key that is there replaces its value in place; a new key goes last.
\<close>

type_synonym params = "(string \<times> json) list"

fun assign :: "string \<Rightarrow> json \<Rightarrow> params \<Rightarrow> params" where
  "assign k v [] = [(k, v)]"
| "assign k v ((k', v') # ps) = (if k = k' then (k, v) # ps else (k', v') # assign k v ps)"

text \<open>\<open>{ ...base, ...ps }\<close>\<close>

definition spread :: "params \<Rightarrow> params \<Rightarrow> params" where
  "spread base ps = fold (\<lambda>(k, v). assign k v) ps base"

text \<open>
  What \<open>axios.get\<close> settles to: a response with its parsed body; an Axios error, with
  the body of the error response when there is one, and the error's own message; or a
  failure that is not an Axios error.
\<close>

datatype axios_result =
    Response json
  | AxiosError "json option" string
  | OtherError string

text \<open>
  The Axios instance of a client, talking to the remote service: a request's parameters
  decide what comes back.
\<close>

type_synonym transport = "params \<Rightarrow> axios_result"

text \<open>\<open>error.response?.data?.error?.info\<close>\<close>

definition error_info :: "json option \<Rightarrow> json" where
  "error_info response =
     (case response of
        None \<Rightarrow> JUndefined
      | Some d \<Rightarrow> opt_member (opt_member d ''error'') ''info'')"

text \<open>\<open>`MediaWiki API error: ${error.response?.data?.error?.info || error.message}`\<close>\<close>

definition failure_message :: "json option \<Rightarrow> string \<Rightarrow> string" where
  "failure_message response message =
     ''MediaWiki API error: '' @ js_string (js_or (error_info response) (JStr message))"

text \<open>
  The parameters \<open>axios.get\<close> is called with:
  \<open>{ format: 'json', formatversion: 2, ...params }\<close>.
\<close>

definition sent_params :: "params \<Rightarrow> params" where
  "sent_params ps = spread [(''format'', JStr ''json''), (''formatversion'', JNum 2)] ps"

definition apiRequest :: "transport \<Rightarrow> params \<Rightarrow> js_error + json" where
  "apiRequest axios ps =
     (case axios (sent_params ps) of
        Response d \<Rightarrow> Inr d
      | AxiosError response message \<Rightarrow> Inl (Error (failure_message response message))
      | OtherError e \<Rightarrow> Inl (Rethrown e))"

subsection \<open>Configuration\<close>

record MediaWikiConfig =
  cfg_baseUrl :: string
  cfg_username :: "string option"
  cfg_password :: "string option"
  cfg_apiToken :: "string option"

record MediaWikiClient =
  baseUrl :: string
  apiEndpoint :: string
  authorization :: "string option"

text \<open>\<open>s.replace(/\/$/, '')\<close>: one slash at the very end is dropped.\<close>

definition strip_trailing_slash :: "string \<Rightarrow> string" where
  "strip_trailing_slash s = (if s \<noteq> [] \<and> last s = CHR ''/'' then butlast s else s)"

definition new_MediaWikiClient :: "MediaWikiConfig \<Rightarrow> MediaWikiClient" where
  "new_MediaWikiClient config =
     (let b = strip_trailing_slash (cfg_baseUrl config) in
      \<lparr> baseUrl = b,
        apiEndpoint = b @ ''/api.php'',
        authorization =
          (case cfg_apiToken config of
             None \<Rightarrow> None
           | Some t \<Rightarrow> if t = [] then None else Some (''Bearer '' @ t)) \<rparr>)"

subsection \<open>Operations\<close>

text \<open>\<open>if (x !== undefined) params.k = x\<close> for a number.\<close>

definition assign_if_defined :: "string \<Rightarrow> int option \<Rightarrow> params \<Rightarrow> params" where
  "assign_if_defined k x ps = (case x of None \<Rightarrow> ps | Some n \<Rightarrow> assign k (JNum n) ps)"

text \<open>\<open>if (x) params.k = x\<close> for a string: an empty string counts as absent.\<close>

definition assign_if_truthy :: "string \<Rightarrow> string option \<Rightarrow> params \<Rightarrow> params" where
  "assign_if_truthy k x ps =
     (case x of None \<Rightarrow> ps | Some s \<Rightarrow> if s = [] then ps else assign k (JStr s) ps)"

definition searchPages_params :: "string \<Rightarrow> int option \<Rightarrow> int option \<Rightarrow> params" where
  "searchPages_params query limit namespace =
     assign_if_defined ''srnamespace'' namespace
       [(''action'', JStr ''query''),
        (''list'', JStr ''search''),
        (''srsearch'', JStr query),
        (''srlimit'', JNum (default_to 10 limit)),
        (''srprop'', JStr ''snippet|timestamp|wordcount|size'')]"

definition searchPages ::
  "transport \<Rightarrow> string \<Rightarrow> int option \<Rightarrow> int option \<Rightarrow> js_error + json" where
  "searchPages axios query limit namespace =
     and_then (apiRequest axios (searchPages_params query limit namespace)) (\<lambda>data.
     and_then (member data ''query'') (\<lambda>q.
     Inr (js_or (opt_member q ''search'') (JArr []))))"

record PageContent =
  pc_pageid :: json
  pc_title :: json
  pc_content :: json
  pc_timestamp :: json
  pc_user :: json
  pc_comment :: json
  pc_categories :: "json list"
  pc_size :: json

definition getPage_params :: "string \<Rightarrow> params" where
  "getPage_params title =
     [(''action'', JStr ''query''),
      (''titles'', JStr title),
      (''prop'', JStr ''revisions|info|categories''),
      (''rvprop'', JStr ''content|timestamp|user|comment''),
      (''rvslots'', JStr ''main''),
      (''rvlimit'', JNum 1)]"

text \<open>The part of \<open>getPage\<close> after the page has been found.\<close>

definition page_content :: "json \<Rightarrow> js_error + PageContent option" where
  "page_content page =
     (let revision = opt_index0 (property page ''revisions'');
          content = js_or (opt_member (opt_member (opt_member revision ''slots'') ''main'')
                             ''content'') (JStr [])
      in and_then (map_title (property page ''categories'')) (\<lambda>titles.
         Inr (Some \<lparr> pc_pageid = property page ''pageid'',
                     pc_title = property page ''title'',
                     pc_content = content,
                     pc_timestamp = js_or (opt_member revision ''timestamp'') (JStr []),
                     pc_user = js_or (opt_member revision ''user'') (JStr []),
                     pc_comment = js_or (opt_member revision ''comment'') (JStr []),
                     pc_categories = default_to [] titles,
                     pc_size = js_or (property page ''length'') (JNum 0) \<rparr>)))"

definition getPage :: "transport \<Rightarrow> string \<Rightarrow> js_error + PageContent option" where
  "getPage axios title =
     and_then (apiRequest axios (getPage_params title)) (\<lambda>data.
     and_then (member data ''query'') (\<lambda>q.
       let pages = opt_member q ''pages'' in
       if \<not> truthy pages \<or> length_is_zero pages then Inr None
       else
         and_then (member (index0 pages) ''missing'') (\<lambda>missing.
           if truthy missing then Inr None else page_content (index0 pages))))"

definition getParsedPage_params :: "string \<Rightarrow> params" where
  "getParsedPage_params title =
     [(''action'', JStr ''parse''), (''page'', JStr title), (''prop'', JStr ''text'')]"

definition getParsedPage :: "transport \<Rightarrow> string \<Rightarrow> js_error + json" where
  "getParsedPage axios title =
     and_then (apiRequest axios (getParsedPage_params title)) (\<lambda>data.
     and_then (member data ''parse'') (\<lambda>p.
     Inr (js_or (opt_member p ''text'') (JStr []))))"

definition getPageHistory_params :: "string \<Rightarrow> int option \<Rightarrow> params" where
  "getPageHistory_params title limit =
     [(''action'', JStr ''query''),
      (''titles'', JStr title),
      (''prop'', JStr ''revisions''),
      (''rvlimit'', JNum (default_to 20 limit)),
      (''rvprop'', JStr ''ids|timestamp|user|comment|size|flags'')]"

definition getPageHistory :: "transport \<Rightarrow> string \<Rightarrow> int option \<Rightarrow> js_error + json" where
  "getPageHistory axios title limit =
     and_then (apiRequest axios (getPageHistory_params title limit)) (\<lambda>data.
     and_then (member data ''query'') (\<lambda>q.
       let pages = opt_member q ''pages'' in
       if \<not> truthy pages \<or> length_is_zero pages then Inr (JArr [])
       else
         and_then (member (index0 pages) ''revisions'') (\<lambda>revisions.
           Inr (js_or revisions (JArr [])))))"

definition listCategories_params :: "string option \<Rightarrow> int option \<Rightarrow> params" where
  "listCategories_params prefix limit =
     assign_if_truthy ''acprefix'' prefix
       [(''action'', JStr ''query''),
        (''list'', JStr ''allcategories''),
        (''aclimit'', JNum (default_to 20 limit)),
        (''acprop'', JStr ''size'')]"

definition listCategories ::
  "transport \<Rightarrow> string option \<Rightarrow> int option \<Rightarrow> js_error + json" where
  "listCategories axios prefix limit =
     and_then (apiRequest axios (listCategories_params prefix limit)) (\<lambda>data.
     and_then (member data ''query'') (\<lambda>q.
     Inr (js_or (opt_member q ''allcategories'') (JArr []))))"

text \<open>\<open>s.startsWith(p)\<close>\<close>

definition startsWith :: "string \<Rightarrow> string \<Rightarrow> bool" where
  "startsWith s p = (take (length p) s = p)"

definition categoryTitle :: "string \<Rightarrow> string" where
  "categoryTitle category =
     (if startsWith category ''Category:'' then category else ''Category:'' @ category)"

definition getCategoryMembers_params ::
  "string \<Rightarrow> int option \<Rightarrow> string option \<Rightarrow> params" where
  "getCategoryMembers_params category limit type =
     assign_if_truthy ''cmtype'' type
       [(''action'', JStr ''query''),
        (''list'', JStr ''categorymembers''),
        (''cmtitle'', JStr (categoryTitle category)),
        (''cmlimit'', JNum (default_to 50 limit)),
        (''cmprop'', JStr ''ids|title|timestamp'')]"

definition getCategoryMembers ::
  "transport \<Rightarrow> string \<Rightarrow> int option \<Rightarrow> string option \<Rightarrow> js_error + json" where
  "getCategoryMembers axios category limit type =
     and_then (apiRequest axios (getCategoryMembers_params category limit type)) (\<lambda>data.
     and_then (member data ''query'') (\<lambda>q.
     Inr (js_or (opt_member q ''categorymembers'') (JArr []))))"

definition getRecentChanges_params ::
  "int option \<Rightarrow> int option \<Rightarrow> string option \<Rightarrow> params" where
  "getRecentChanges_params limit namespace type =
     assign_if_truthy ''rctype'' type
       (assign_if_defined ''rcnamespace'' namespace
          [(''action'', JStr ''query''),
           (''list'', JStr ''recentchanges''),
           (''rclimit'', JNum (default_to 20 limit)),
           (''rcprop'', JStr ''title|ids|sizes|flags|user|timestamp|comment'')])"

definition getRecentChanges ::
  "transport \<Rightarrow> int option \<Rightarrow> int option \<Rightarrow> string option \<Rightarrow> js_error + json" where
  "getRecentChanges axios limit namespace type =
     and_then (apiRequest axios (getRecentChanges_params limit namespace type)) (\<lambda>data.
     and_then (member data ''query'') (\<lambda>q.
     Inr (js_or (opt_member q ''recentchanges'') (JArr []))))"

definition getPageLinks_params :: "string \<Rightarrow> int option \<Rightarrow> params" where
  "getPageLinks_params title limit =
     [(''action'', JStr ''query''),
      (''titles'', JStr title),
      (''prop'', JStr ''links''),
      (''pllimit'', JNum (default_to 50 limit))]"

definition getPageLinks :: "transport \<Rightarrow> string \<Rightarrow> int option \<Rightarrow> js_error + json" where
  "getPageLinks axios title limit =
     and_then (apiRequest axios (getPageLinks_params title limit)) (\<lambda>data.
     and_then (member data ''query'') (\<lambda>q.
       let pages = opt_member q ''pages'' in
       if \<not> truthy pages \<or> length_is_zero pages then Inr (JArr [])
       else
         and_then (member (index0 pages) ''links'') (\<lambda>links.
         and_then (map_title links) (\<lambda>titles.
           Inr (JArr (default_to [] titles))))))"

definition getBacklinks_params :: "string \<Rightarrow> int option \<Rightarrow> params" where
  "getBacklinks_params title limit =
     [(''action'', JStr ''query''),
      (''list'', JStr ''backlinks''),
      (''bltitle'', JStr title),
      (''bllimit'', JNum (default_to 50 limit))]"

definition getBacklinks :: "transport \<Rightarrow> string \<Rightarrow> int option \<Rightarrow> js_error + json" where
  "getBacklinks axios title limit =
     and_then (apiRequest axios (getBacklinks_params title limit)) (\<lambda>data.
     and_then (member data ''query'') (\<lambda>q.
     and_then (map_title (opt_member q ''backlinks'')) (\<lambda>titles.
       Inr (JArr (default_to [] titles)))))"

subsection \<open>Page addresses\<close>

text \<open>
  \<open>encodeURIComponent\<close> leaves the unreserved characters (letters, digits and
  \<open>- _ . ! ~ * ' ( )\<close>) and writes every other byte of the UTF-8 encoding as \<open>%XX\<close>
  with upper-case hexadecimal digits.
\<close>

definition uriUnreserved :: "char \<Rightarrow> bool" where
  "uriUnreserved c =
     (c \<in> set (''ABCDEFGHIJKLMNOPQRSTUVWXYZabcdefghijklmnopqrstuvwxyz0123456789-_.!~*()''
               @ [CHR 0x27]))"

definition hex_digit :: "nat \<Rightarrow> char" where
  "hex_digit n = ''0123456789ABCDEF'' ! n"

definition percent_byte :: "char \<Rightarrow> string" where
  "percent_byte c =
     [CHR ''%'', hex_digit ((of_char c :: nat) div 16), hex_digit ((of_char c :: nat) mod 16)]"

definition encodeURIComponent :: "string \<Rightarrow> string" where
  "encodeURIComponent s =
     concat (map (\<lambda>c. if uriUnreserved c then [c] else percent_byte c) s)"

text \<open>\<open>title.replace(/ /g, '_')\<close>\<close>

definition replace_spaces :: "string \<Rightarrow> string" where
  "replace_spaces title = map (\<lambda>c. if c = CHR '' '' then CHR ''_'' else c) title"

definition getPageUrl :: "MediaWikiClient \<Rightarrow> string \<Rightarrow> string" where
  "getPageUrl client title =
     baseUrl client @ ''/index.php/'' @ encodeURIComponent (replace_spaces title)"

text \<open>
  Percent-decoding, the reverse the specification speaks of: \<open>%XX\<close> with two hexadecimal
  digits of either case is one byte, every other character is itself, and a \<open>%\<close> that
  two hexadecimal digits do not follow has no decoding.
\<close>

definition hex_value :: "char \<Rightarrow> nat option" where
  "hex_value c =
     (let n = (of_char c :: nat) in
      if 48 \<le> n \<and> n \<le> 57 then Some (n - 48)
      else if 65 \<le> n \<and> n \<le> 70 then Some (n - 55)
      else if 97 \<le> n \<and> n \<le> 102 then Some (n - 87)
      else None)"

fun percent_decode :: "string \<Rightarrow> string option" where
  "percent_decode [] = Some []"
| "percent_decode (c # cs) =
     (if c = CHR ''%'' then
        (case cs of
           h # l # rest \<Rightarrow>
             (case (hex_value h, hex_value l) of
                (Some a, Some b) \<Rightarrow>
                  map_option ((#) (char_of (16 * a + b))) (percent_decode rest)
              | _ \<Rightarrow> None)
         | _ \<Rightarrow> None)
      else map_option ((#) c) (percent_decode cs))"

text \<open>
  Two titles that differ only in that some spaces of the first are underscores in the
  second.
\<close>

definition space_variant :: "string \<Rightarrow> string \<Rightarrow> bool" where
  "space_variant s t =
     list_all2 (\<lambda>a b. a = b \<or> (a = CHR '' '' \<and> b = CHR ''_'')) s t"

subsection \<open>Timestamps\<close>

text \<open>
  What the program takes from the JavaScript runtime without defining it:
  \<open>new Date(v).toLocaleString('en-US', {year: 'numeric', month: 'short', day: 'numeric',
  hour: '2-digit', minute: '2-digit'})\<close> and \<open>s.toUpperCase()\<close>.
\<close>

record runtime =
  dateToLocaleString :: "json \<Rightarrow> string"
  toUpperCase :: "string \<Rightarrow> string"

definition formatTimestamp :: "runtime \<Rightarrow> json \<Rightarrow> string" where
  "formatTimestamp rt timestamp = dateToLocaleString rt timestamp"

text \<open>
  The rendering itself is the runtime's, not the program's.  Modelled from the ECMAScript
  standard (ECMA-262 \<open>Date\<close>, ECMA-402 \<open>DateTimeFormat\<close>), for the timestamps the remote
  service sends, \<open>YYYY-MM-DDTHH:MM:SSZ\<close> from 1970 on: the text is read as a time in UTC;
  the program passes no \<open>timeZone\<close> option, so the time is shifted to the local time of
  the host's time zone; and it is printed in the \<open>en-US\<close> pattern \<open>MMM d, y, hh:mm a\<close>.
  What the host contributes is its time zone (the offset from UTC in minutes, east
  positive, at a given time) and the space its locale data puts before \<open>AM\<close>/\<open>PM\<close> (a plain
  space, or U+202F in newer data).  Times are counted in minutes since 1970-01-01T00:00Z.
  For every other value the model says nothing (\<open>None\<close>).
\<close>

record host =
  localTZA :: "int \<Rightarrow> int"
  dayPeriodSpace :: string

text \<open>A run of decimal digits as a number.\<close>

definition digit_value :: "char \<Rightarrow> nat option" where
  "digit_value c =
     (let n = (of_char c :: nat) in if 48 \<le> n \<and> n \<le> 57 then Some (n - 48) else None)"

fun number_of :: "nat \<Rightarrow> string \<Rightarrow> nat option" where
  "number_of acc [] = Some acc"
| "number_of acc (c # cs) =
     (case digit_value c of None \<Rightarrow> None | Some d \<Rightarrow> number_of (10 * acc + d) cs)"

text \<open>The proleptic Gregorian calendar: days since 1970-01-01 of a date, and back.\<close>

definition is_leap_year :: "int \<Rightarrow> bool" where
  "is_leap_year y =
     (if y mod 400 = 0 then True else if y mod 100 = 0 then False else y mod 4 = 0)"

definition days_in_month :: "int \<Rightarrow> int \<Rightarrow> int" where
  "days_in_month y m =
     (if m = 2 then (if is_leap_year y then 29 else 28)
      else if m = 4 \<or> m = 6 \<or> m = 9 \<or> m = 11 then 30
      else 31)"

definition days_from_civil :: "int \<Rightarrow> int \<Rightarrow> int \<Rightarrow> int" where
  "days_from_civil y m d =
     (let y' = (if m \<le> 2 then y - 1 else y);
          era = y' div 400;
          yoe = y' - era * 400;
          doy = (153 * (if m > 2 then m - 3 else m + 9) + 2) div 5 + d - 1;
          doe = yoe * 365 + yoe div 4 - yoe div 100 + doy
      in era * 146097 + doe - 719468)"

definition civil_from_days :: "int \<Rightarrow> int \<times> int \<times> int" where
  "civil_from_days z =
     (let z' = z + 719468;
          era = z' div 146097;
          doe = z' - era * 146097;
          yoe = (doe - doe div 1460 + doe div 36524 - doe div 146096) div 365;
          doy = doe - (365 * yoe + yoe div 4 - yoe div 100);
          mp = (5 * doy + 2) div 153;
          d = doy - (153 * mp + 2) div 5 + 1;
          m = (if mp < 10 then mp + 3 else mp - 9);
          y = yoe + era * 400
      in (if m \<le> 2 then y + 1 else y, m, d))"

text \<open>\<open>new Date(t)\<close> for \<open>t\<close> of the form \<open>YYYY-MM-DDTHH:MM:SSZ\<close>: minutes since the epoch, UTC.\<close>

definition parse_timestamp :: "string \<Rightarrow> int option" where
  "parse_timestamp t =
     (if length t = 20 \<and> t ! 4 = CHR ''-'' \<and> t ! 7 = CHR ''-'' \<and> t ! 10 = CHR ''T''
         \<and> t ! 13 = CHR '':'' \<and> t ! 16 = CHR '':'' \<and> t ! 19 = CHR ''Z''
      then
        (case (number_of 0 (take 4 t), number_of 0 (take 2 (drop 5 t)),
               number_of 0 (take 2 (drop 8 t)), number_of 0 (take 2 (drop 11 t)),
               number_of 0 (take 2 (drop 14 t)), number_of 0 (take 2 (drop 17 t))) of
           (Some y, Some mo, Some d, Some h, Some mi, Some s) \<Rightarrow>
             if 1970 \<le> y \<and> 1 \<le> mo \<and> mo \<le> 12 \<and> 1 \<le> d
                \<and> int d \<le> days_in_month (int y) (int mo)
                \<and> h \<le> 23 \<and> mi \<le> 59 \<and> s \<le> 59
             then Some (days_from_civil (int y) (int mo) (int d) * 1440
                        + int h * 60 + int mi)
             else None
         | _ \<Rightarrow> None)
      else None)"

text \<open>\<open>MMM d, y, hh:mm a\<close> of a local time.\<close>

definition month_name :: "int \<Rightarrow> string" where
  "month_name m =
     [''Jan'', ''Feb'', ''Mar'', ''Apr'', ''May'', ''Jun'',
      ''Jul'', ''Aug'', ''Sep'', ''Oct'', ''Nov'', ''Dec''] ! nat (m - 1)"

definition two_digits :: "int \<Rightarrow> string" where
  "two_digits n = (if n < 10 then CHR ''0'' # number_string n else number_string n)"

definition en_US_short :: "string \<Rightarrow> int \<Rightarrow> string" where
  "en_US_short sep local =
     (case civil_from_days (local div 1440) of
        (y, m, d) \<Rightarrow>
          let hour = (local mod 1440) div 60;
              minute = (local mod 1440) mod 60;
              h12 = (if hour mod 12 = 0 then 12 else hour mod 12)
          in month_name m @ '' '' @ number_string d @ '', '' @ number_string y @ '', '' @
             two_digits h12 @ '':'' @ two_digits minute @ sep @
             (if hour < 12 then ''AM'' else ''PM''))"

text \<open>The rendering on a host, where the model covers the value and the zone.\<close>

definition toLocaleString_en_US :: "host \<Rightarrow> json \<Rightarrow> string option" where
  "toLocaleString_en_US h v =
     (case v of
        JStr t \<Rightarrow>
          (case parse_timestamp t of
             None \<Rightarrow> None
           | Some utc \<Rightarrow>
               let z = localTZA h utc in
               if - 1440 < z \<and> z < 1440
               then Some (en_US_short (dayPeriodSpace h) (utc + z))
               else None)
      | _ \<Rightarrow> None)"

text \<open>A runtime on a host renders as the model says, wherever the model says something.\<close>

definition runs_on :: "runtime \<Rightarrow> host \<Rightarrow> bool" where
  "runs_on rt h =
     (\<forall>v s. toLocaleString_en_US h v = Some s \<longrightarrow> dateToLocaleString rt v = s)"

section \<open>The tools\<close>

text \<open>
  The handlers of the list tools are typed against the interfaces of \<open>types.ts\<close>, and
  compute with the numbers in them: what the client returned is read as a list of
  records of the declared interface.  A handler awaits the client's operation, so a
  failure of the operation is the failure of the handler.  The handler of \<open>get_page\<close>
  only prints the fields of its page, and is modelled on the values \<open>getPage\<close> built.
\<close>

record SearchResult =
  sr_title :: string
  sr_pageid :: int
  sr_snippet :: string
  sr_wordcount :: int
  sr_size :: int
  sr_timestamp :: string

record Revision =
  rev_revid :: int
  rev_parentid :: int
  rev_timestamp :: string
  rev_user :: string
  rev_comment :: string
  rev_size :: int
  rev_minor :: "bool option"

record RecentChange =
  rc_type :: string
  rc_title :: string
  rc_pageid :: int
  rc_revid :: int
  rc_old_revid :: int
  rc_rcid :: int
  rc_user :: string
  rc_timestamp :: string
  rc_comment :: string
  rc_oldlen :: int
  rc_newlen :: int

text \<open>\<open>"s"\<close>: a text between double quotes.\<close>

definition quoted :: "string \<Rightarrow> string" where
  "quoted s = CHR 0x22 # s @ [CHR 0x22]"

text \<open>\<open>s || d\<close> for strings.\<close>

definition or_text :: "string \<Rightarrow> string \<Rightarrow> string" where
  "or_text s d = (if s = [] then d else s)"

text \<open>\<open>xs.forEach((x, index) => { text += entry(x, index) })\<close>\<close>

definition forEach_text :: "('a \<Rightarrow> nat \<Rightarrow> string) \<Rightarrow> 'a list \<Rightarrow> string" where
  "forEach_text entry xs = concat (map (\<lambda>(index, x). entry x index) (enumerate 0 xs))"

subsection \<open>search_pages\<close>

text \<open>
  \<open>snippet.replace(/<[^>]*>/g, '')\<close>: scanning from the left, a \<open><\<close> with a \<open>>\<close>
  somewhere after it is removed together with everything up to and including the first
  such \<open>>\<close>; any other character stays.
\<close>

function strip_tags :: "string \<Rightarrow> string" where
  "strip_tags [] = []"
| "strip_tags (c # cs) =
     (if c = CHR ''<'' \<and> CHR ''>'' \<in> set cs
      then strip_tags (tl (dropWhile (\<lambda>x. x \<noteq> CHR ''>'') cs))
      else c # strip_tags cs)"
  by pat_completeness auto
termination
  by (relation "measure length")
     (auto simp: less_Suc_eq_le intro: order_trans [OF diff_le_self length_dropWhile_le])

definition search_entry ::
  "runtime \<Rightarrow> MediaWikiClient \<Rightarrow> SearchResult \<Rightarrow> nat \<Rightarrow> string" where
  "search_entry rt client result index =
     number_string (int index + 1) @ ''. **'' @ sr_title result @ ''**\<newline>'' @
     ''   URL: '' @ getPageUrl client (sr_title result) @ ''\<newline>'' @
     ''   Snippet: '' @ strip_tags (sr_snippet result) @ ''\<newline>'' @
     ''   Size: '' @ number_string (sr_size result) @ '' bytes | Words: '' @
       number_string (sr_wordcount result) @ '' | Modified: '' @
       formatTimestamp rt (JStr (sr_timestamp result)) @ ''\<newline>\<newline>''"

definition search_pages ::
  "runtime \<Rightarrow> MediaWikiClient \<Rightarrow> string \<Rightarrow> js_error + SearchResult list \<Rightarrow> js_error + string" where
  "search_pages rt client query searched =
     and_then searched (\<lambda>results.
       if length results = 0 then Inr (''No results found for '' @ quoted query)
       else Inr (''Found '' @ number_string (int (length results)) @ '' results for '' @
                 quoted query @ '':\<newline>\<newline>'' @
                 forEach_text (search_entry rt client) results))"

subsection \<open>get_page\<close>

text \<open>\<open>client.getPageUrl(v)\<close> on a value: only a string has a \<open>replace\<close> to call.\<close>

definition getPageUrl_of :: "MediaWikiClient \<Rightarrow> json \<Rightarrow> js_error + string" where
  "getPageUrl_of client v =
     (case v of JStr title \<Rightarrow> Inr (getPageUrl client title) | _ \<Rightarrow> Inl TypeError)"

definition page_text ::
  "runtime \<Rightarrow> MediaWikiClient \<Rightarrow> PageContent \<Rightarrow> json \<Rightarrow> js_error + string" where
  "page_text rt client page content =
     and_then (getPageUrl_of client (pc_title page)) (\<lambda>url.
       Inr (''# Page: '' @ js_string (pc_title page) @ ''\<newline>'' @
            ''URL: '' @ url @ ''\<newline>\<newline>'' @
            ''## Metadata\<newline>'' @
            ''- Page ID: '' @ js_string (pc_pageid page) @ ''\<newline>'' @
            ''- Last Modified: '' @ formatTimestamp rt (pc_timestamp page) @ '' by '' @
              js_string (pc_user page) @ ''\<newline>'' @
            ''- Categories: '' @ or_text (array_join '', '' (pc_categories page)) ''None'' @
              ''\<newline>'' @
            ''- Size: '' @ js_string (pc_size page) @ '' bytes\<newline>'' @
            ''- Comment: '' @ js_string (js_or (pc_comment page) (JStr ''No comment'')) @
              ''\<newline>\<newline>'' @
            ''## Content\<newline>\<newline>'' @ js_string content))"

definition get_page ::
  "runtime \<Rightarrow> MediaWikiClient \<Rightarrow> transport \<Rightarrow> string \<Rightarrow> bool \<Rightarrow> js_error + string" where
  "get_page rt client axios title include_html =
     and_then (getPage axios title) (\<lambda>found.
       case found of
         None \<Rightarrow> Inr (''Page '' @ quoted title @ '' not found'')
       | Some page \<Rightarrow>
           and_then (if include_html then getParsedPage axios title
                     else Inr (pc_content page)) (\<lambda>content.
           page_text rt client page content))"

subsection \<open>get_page_history\<close>

definition history_sizeDiff :: "Revision list \<Rightarrow> Revision \<Rightarrow> nat \<Rightarrow> int" where
  "history_sizeDiff revisions revision index =
     (if int index < int (length revisions) - 1
      then rev_size revision - rev_size (revisions ! (index + 1))
      else 0)"

definition history_diffText :: "int \<Rightarrow> string" where
  "history_diffText sizeDiff =
     (if sizeDiff > 0 then ''(+'' @ number_string sizeDiff @ '')''
      else if sizeDiff < 0 then ''('' @ number_string sizeDiff @ '')''
      else [])"

definition history_entry :: "runtime \<Rightarrow> Revision list \<Rightarrow> Revision \<Rightarrow> nat \<Rightarrow> string" where
  "history_entry rt revisions revision index =
     number_string (int index + 1) @ ''. [Revision '' @ number_string (rev_revid revision) @
       ''] '' @ formatTimestamp rt (JStr (rev_timestamp revision)) @
       (if rev_minor revision = Some True then '' (minor)'' else []) @ ''\<newline>'' @
     ''   By: '' @ rev_user revision @ ''\<newline>'' @
     ''   Comment: '' @ or_text (rev_comment revision) ''No comment'' @ ''\<newline>'' @
     ''   Size: '' @ number_string (rev_size revision) @ '' bytes '' @
       history_diffText (history_sizeDiff revisions revision index) @ ''\<newline>\<newline>''"

definition get_page_history ::
  "runtime \<Rightarrow> string \<Rightarrow> js_error + Revision list \<Rightarrow> js_error + string" where
  "get_page_history rt title history =
     and_then history (\<lambda>revisions.
       if length revisions = 0 then Inr (''No revision history found for '' @ quoted title)
       else Inr (''# Revision History: '' @ title @
                 ''\<newline>\<newline>## Recent Changes\<newline>\<newline>'' @
                 forEach_text (history_entry rt revisions) revisions))"

subsection \<open>get_recent_changes\<close>

definition changes_sizeDiff :: "RecentChange \<Rightarrow> int" where
  "changes_sizeDiff change = rc_newlen change - rc_oldlen change"

definition changes_diffText :: "int \<Rightarrow> string" where
  "changes_diffText sizeDiff =
     (if sizeDiff > 0 then ''+'' @ number_string sizeDiff else number_string sizeDiff)"

definition changes_entry ::
  "runtime \<Rightarrow> MediaWikiClient \<Rightarrow> RecentChange \<Rightarrow> nat \<Rightarrow> string" where
  "changes_entry rt client change index =
     number_string (int index + 1) @ ''. ['' @ toUpperCase rt (rc_type change) @ ''] **'' @
       rc_title change @ ''** - '' @ formatTimestamp rt (JStr (rc_timestamp change)) @
       ''\<newline>'' @
     ''   By: '' @ rc_user change @ ''\<newline>'' @
     ''   Comment: '' @ or_text (rc_comment change) ''No comment'' @ ''\<newline>'' @
     ''   Size change: '' @ changes_diffText (changes_sizeDiff change) @ '' bytes\<newline>'' @
     ''   URL: '' @ getPageUrl client (rc_title change) @ ''\<newline>\<newline>''"

definition get_recent_changes ::
  "runtime \<Rightarrow> MediaWikiClient \<Rightarrow> js_error + RecentChange list \<Rightarrow> js_error + string" where
  "get_recent_changes rt client recent =
     and_then recent (\<lambda>changes.
       if length changes = 0 then Inr ''No recent changes found''
       else Inr (''# Recent Changes\<newline>\<newline>'' @
                 forEach_text (changes_entry rt client) changes))"

section \<open>Sequencing\<close>

lemma and_then_Inl: "and_then (Inl e) f = Inl e"
  by (simp add: and_then_def)

lemma and_then_Inr: "and_then (Inr x) f = f x"
  by (simp add: and_then_def)

section \<open>Failures of the remote call\<close>

lemma apiRequest_AxiosError:
  "axios (sent_params ps) = AxiosError response message \<Longrightarrow>
   apiRequest axios ps = Inl (Error (failure_message response message))"
  by (simp add: apiRequest_def)

text \<open>
  C1, as the code has it.  When the call an operation issues fails with an Axios error,
  the operation fails with one error: its message is \<open>MediaWiki API error: \<close> followed
  by the description the error response carries (\<open>error.info\<close> in its body) when there is
  one that is not empty, and by the message of the Axios error otherwise.  This holds for
  \<open>apiRequest\<close> on any parameters and for each of the nine operations on the request it
  issues, whatever the transport does on other requests; no operation turns the failure
  into a result, and the \<open>get_page\<close> tool passes the failure of \<open>getPage\<close> on.
\<close>

theorem transport_failure_propagates:
  "(axios (sent_params ps) = AxiosError response message \<longrightarrow>
      apiRequest axios ps = Inl (Error (failure_message response message)))
   \<and> (axios (sent_params (searchPages_params query limit namespace))
         = AxiosError response message \<longrightarrow>
      searchPages axios query limit namespace
         = Inl (Error (failure_message response message)))
   \<and> (axios (sent_params (getPage_params title)) = AxiosError response message \<longrightarrow>
      getPage axios title = Inl (Error (failure_message response message))
      \<and> get_page rt client axios title include_html
          = Inl (Error (failure_message response message)))
   \<and> (axios (sent_params (getParsedPage_params title)) = AxiosError response message \<longrightarrow>
      getParsedPage axios title = Inl (Error (failure_message response message)))
   \<and> (axios (sent_params (getPageHistory_params title limit))
         = AxiosError response message \<longrightarrow>
      getPageHistory axios title limit = Inl (Error (failure_message response message)))
   \<and> (axios (sent_params (listCategories_params prefix limit))
         = AxiosError response message \<longrightarrow>
      listCategories axios prefix limit = Inl (Error (failure_message response message)))
   \<and> (axios (sent_params (getCategoryMembers_params category limit type))
         = AxiosError response message \<longrightarrow>
      getCategoryMembers axios category limit type
         = Inl (Error (failure_message response message)))
   \<and> (axios (sent_params (getRecentChanges_params limit namespace type))
         = AxiosError response message \<longrightarrow>
      getRecentChanges axios limit namespace type
         = Inl (Error (failure_message response message)))
   \<and> (axios (sent_params (getPageLinks_params title limit))
         = AxiosError response message \<longrightarrow>
      getPageLinks axios title limit = Inl (Error (failure_message response message)))
   \<and> (axios (sent_params (getBacklinks_params title limit))
         = AxiosError response message \<longrightarrow>
      getBacklinks axios title limit = Inl (Error (failure_message response message)))
   \<and> failure_message response message =
         ''MediaWiki API error: '' @
         (if truthy (error_info response) then js_string (error_info response) else message)"
proof -
  have msg: "failure_message response message =
         ''MediaWiki API error: '' @
         (if truthy (error_info response) then js_string (error_info response) else message)"
    by (simp add: failure_message_def js_or_def)
  show ?thesis
    by (intro conjI impI)
       (simp_all add: apiRequest_AxiosError and_then_def searchPages_def getPage_def
          getParsedPage_def getPageHistory_def listCategories_def getCategoryMembers_def
          getRecentChanges_def getPageLinks_def getBacklinks_def get_page_def msg)
qed

theorem transport_failure_propagates_witness:
  "(\<lambda>ps. if map_of ps ''list'' = Some (JStr ''search'')
         then AxiosError
                (Some (JObj [(''error'', JObj [(''code'', JStr ''invalidtitle''),
                                               (''info'', JStr ''Bad title'')])]))
                ''Request failed with status code 400''
         else Response (JObj []))
     (sent_params (searchPages_params ''x'' None None))
   = AxiosError
       (Some (JObj [(''error'', JObj [(''code'', JStr ''invalidtitle''),
                                      (''info'', JStr ''Bad title'')])]))
       ''Request failed with status code 400''
   \<and> searchPages
        (\<lambda>ps. if map_of ps ''list'' = Some (JStr ''search'')
              then AxiosError
                     (Some (JObj [(''error'', JObj [(''code'', JStr ''invalidtitle''),
                                                    (''info'', JStr ''Bad title'')])]))
                     ''Request failed with status code 400''
              else Response (JObj []))
        ''x'' None None
      = Inl (Error ''MediaWiki API error: Bad title'')
   \<and> getPage
        (\<lambda>ps. if map_of ps ''titles'' = Some (JStr ''Main Page'')
              then AxiosError None ''timeout of 30000ms exceeded''
              else Response (JObj []))
        ''Main Page''
      = Inl (Error ''MediaWiki API error: timeout of 30000ms exceeded'')"
proof -
  let ?body = "Some (JObj [(''error'', JObj [(''code'', JStr ''invalidtitle''),
                                            (''info'', JStr ''Bad title'')])])"
  let ?refused = "\<lambda>ps::params. if map_of ps ''list'' = Some (JStr ''search'')
         then AxiosError ?body ''Request failed with status code 400''
         else Response (JObj [])"
  let ?timeout = "\<lambda>ps::params. if map_of ps ''titles'' = Some (JStr ''Main Page'')
              then AxiosError None ''timeout of 30000ms exceeded''
              else Response (JObj [])"
  have r: "?refused (sent_params (searchPages_params ''x'' None None))
      = AxiosError ?body ''Request failed with status code 400''"
    by (simp add: sent_params_def spread_def searchPages_params_def assign_if_defined_def)
  have t: "?timeout (sent_params (getPage_params ''Main Page''))
      = AxiosError None ''timeout of 30000ms exceeded''"
    by (simp add: sent_params_def spread_def getPage_params_def)
  have info: "error_info ?body = JStr ''Bad title''"
    by (simp add: error_info_def opt_member_def nullish_def)
  have none: "error_info None = JUndefined"
    by (simp add: error_info_def)
  note w1 = transport_failure_propagates
      [where axios = ?refused and response = ?body
         and message = "''Request failed with status code 400''"
         and query = "''x''" and limit = None and namespace = None]
  note w2 = transport_failure_propagates
      [where axios = ?timeout and response = None
         and message = "''timeout of 30000ms exceeded''" and title = "''Main Page''"]
  have m1: "failure_message ?body ''Request failed with status code 400''
      = ''MediaWiki API error: Bad title''"
    by (simp add: failure_message_def js_or_def info)
  have m2: "failure_message None ''timeout of 30000ms exceeded''
      = ''MediaWiki API error: timeout of 30000ms exceeded''"
    by (simp add: failure_message_def js_or_def none)
  have s: "searchPages ?refused ''x'' None None = Inl (Error ''MediaWiki API error: Bad title'')"
    using w1 [THEN conjunct2, THEN conjunct1] r unfolding m1 by blast
  have g: "getPage ?timeout ''Main Page''
      = Inl (Error ''MediaWiki API error: timeout of 30000ms exceeded'')"
    using w2 [THEN conjunct2, THEN conjunct2, THEN conjunct1] t unfolding m2 by blast
  show ?thesis
    by (intro conjI; (rule r s g))
qed

text \<open>
  C1, as the specification words it, fails on an error payload in a successful
  response: the body \<open>{"error": {"code": ..., "info": ...}}\<close> is handed to the operation
  as data, and \<open>searchPages\<close> returns the empty list.
\<close>

theorem embedded_error_counterexample:
  "searchPages
     (\<lambda>_. Response (JObj [(''error'', JObj [(''code'', JStr ''badvalue''),
                                             (''info'', JStr ''Unrecognized value'')])]))
     ''x'' None None
   = Inr (JArr [])"
  by (simp add: searchPages_def apiRequest_def and_then_def member_def nullish_def
      opt_member_def js_or_def)

section \<open>Pages: missing ones, and omitted fields\<close>

lemma getPage_found:
  assumes "apiRequest axios (getPage_params title) = Inr data"
    and "member data ''query'' = Inr q"
    and "opt_member q ''pages'' = JArr (page # rest)"
    and "member page ''missing'' = Inr missing"
  shows "getPage axios title = (if truthy missing then Inr None else page_content page)"
  using assms by (simp add: getPage_def and_then_Inr length_is_zero_def Let_def)

text \<open>
  C3.  When the call succeeds and the first page of the response has a truthy
  \<open>missing\<close> member (how the remote service reports a page it does not have),
  \<open>getPage\<close> returns the absent result, not a failure, and the \<open>get_page\<close> tool returns
  the text \<open>Page "<title>" not found\<close> as a normal result, whatever \<open>include_html\<close> is.
\<close>

theorem getPage_missing_not_found:
  assumes "apiRequest axios (getPage_params title) = Inr data"
    and "member data ''query'' = Inr q"
    and "opt_member q ''pages'' = JArr (page # rest)"
    and "member page ''missing'' = Inr missing"
    and "truthy missing"
  shows "getPage axios title = Inr None
     \<and> get_page rt client axios title include_html =
         Inr (''Page '' @ [CHR 0x22] @ title @ [CHR 0x22] @ '' not found'')"
proof -
  have "getPage axios title = Inr None"
    using getPage_found [OF assms(1-4)] assms(5) by simp
  then show ?thesis
    by (simp add: get_page_def and_then_Inr quoted_def)
qed

theorem getPage_missing_not_found_witness:
  "getPage
     (\<lambda>_. Response (JObj [(''batchcomplete'', JBool True),
        (''query'', JObj [(''pages'',
           JArr [JObj [(''title'', JStr ''Nope''), (''missing'', JBool True)]])])]))
     ''Nope''
   = Inr None
   \<and> get_page
     \<lparr> dateToLocaleString = (\<lambda>_. ''Invalid Date''), toUpperCase = (\<lambda>s. s) \<rparr>
     \<lparr> baseUrl = ''https://wiki.example.org'',
       apiEndpoint = ''https://wiki.example.org/api.php'', authorization = None \<rparr>
     (\<lambda>_. Response (JObj [(''batchcomplete'', JBool True),
        (''query'', JObj [(''pages'',
           JArr [JObj [(''title'', JStr ''Nope''), (''missing'', JBool True)]])])]))
     ''Nope'' False
   = Inr (''Page '' @ [CHR 0x22] @ ''Nope'' @ [CHR 0x22] @ '' not found'')"
proof -
  let ?page = "JObj [(''title'', JStr ''Nope''), (''missing'', JBool True)]"
  let ?q = "JObj [(''pages'', JArr [?page])]"
  let ?data = "JObj [(''batchcomplete'', JBool True), (''query'', ?q)]"
  let ?axios = "\<lambda>_::params. Response ?data"
  have h1: "apiRequest ?axios (getPage_params ''Nope'') = Inr ?data"
    by (simp add: apiRequest_def)
  have h2: "member ?data ''query'' = Inr ?q"
    by (simp add: member_def nullish_def)
  have h3: "opt_member ?q ''pages'' = JArr (?page # [])"
    by (simp add: opt_member_def nullish_def)
  have h4: "member ?page ''missing'' = Inr (JBool True)"
    by (simp add: member_def nullish_def)
  have h5: "truthy (JBool True)"
    by simp
  show ?thesis
    using getPage_missing_not_found [OF h1 h2 h3 h4 h5,
        where rt = "\<lparr> dateToLocaleString = (\<lambda>_. ''Invalid Date''), toUpperCase = (\<lambda>s. s) \<rparr>"
          and client = "\<lparr> baseUrl = ''https://wiki.example.org'',
                 apiEndpoint = ''https://wiki.example.org/api.php'', authorization = None \<rparr>"
          and include_html = False]
    by simp
qed

text \<open>
  C8.  For a page that exists (its \<open>missing\<close> member is not truthy) and whose
  \<open>categories\<close> member is left out, or is an array of objects, \<open>getPage\<close> returns a page
  and no failure.  In it the body is the empty string when the revision has no content
  (the revision, its slots, the main slot or its content is left out), timestamp, user
  and comment are the empty string when left out, the categories are the empty list when
  the page has none, and the size is zero when left out.
\<close>

theorem getPage_defaults:
  assumes "apiRequest axios (getPage_params title) = Inr data"
    and "member data ''query'' = Inr q"
    and "opt_member q ''pages'' = JArr (JObj kvs # rest)"
    and "\<not> truthy (property (JObj kvs) ''missing'')"
    and "nullish (property (JObj kvs) ''categories'')
         \<or> (\<exists>cs. property (JObj kvs) ''categories'' = JArr cs \<and> \<not> list_ex nullish cs)"
  shows "\<exists>pc. getPage axios title = Inr (Some pc)
     \<and> (let revision = opt_index0 (property (JObj kvs) ''revisions'');
             content = opt_member (opt_member (opt_member revision ''slots'') ''main'')
                         ''content''
         in (nullish content \<longrightarrow> pc_content pc = JStr [])
          \<and> (truthy content \<longrightarrow> pc_content pc = content)
          \<and> (nullish (opt_member revision ''timestamp'') \<longrightarrow> pc_timestamp pc = JStr [])
          \<and> (nullish (opt_member revision ''user'') \<longrightarrow> pc_user pc = JStr [])
          \<and> (nullish (opt_member revision ''comment'') \<longrightarrow> pc_comment pc = JStr []))
     \<and> (nullish (property (JObj kvs) ''categories'') \<longrightarrow> pc_categories pc = [])
     \<and> (nullish (property (JObj kvs) ''length'') \<longrightarrow> pc_size pc = JNum 0)"
proof -
  have m: "member (JObj kvs) ''missing'' = Inr (property (JObj kvs) ''missing'')"
    by (simp add: member_def nullish_def)
  have g: "getPage axios title = page_content (JObj kvs)"
    using getPage_found [OF assms(1-3) m] assms(4) by simp
  have n: "nullish v \<Longrightarrow> \<not> truthy v" for v
    by (auto simp: nullish_def)
  obtain titles where t: "map_title (property (JObj kvs) ''categories'') = Inr titles"
    using assms(5) by (auto simp: map_title_def nullish_def)
  have e: "nullish (property (JObj kvs) ''categories'') \<Longrightarrow> titles = None"
    using t by (auto simp: nullish_def map_title_def)
  show ?thesis
    unfolding g page_content_def Let_def t and_then_Inr
    by (auto simp: js_or_def default_to_def n e)
qed

theorem getPage_defaults_witness:
  "\<exists>pc. getPage
       (\<lambda>_. Response (JObj [(''query'', JObj [(''pages'',
          JArr [JObj [(''pageid'', JNum 7), (''title'', JStr ''Stub'')]])])]))
       ''Stub''
     = Inr (Some pc)
   \<and> pc_content pc = JStr [] \<and> pc_timestamp pc = JStr [] \<and> pc_user pc = JStr []
   \<and> pc_comment pc = JStr [] \<and> pc_categories pc = [] \<and> pc_size pc = JNum 0"
proof -
  let ?kvs = "[(''pageid'', JNum 7), (''title'', JStr ''Stub'')]"
  let ?q = "JObj [(''pages'', JArr [JObj ?kvs])]"
  let ?data = "JObj [(''query'', ?q)]"
  let ?axios = "\<lambda>_::params. Response ?data"
  have h1: "apiRequest ?axios (getPage_params ''Stub'') = Inr ?data"
    by (simp add: apiRequest_def)
  have h2: "member ?data ''query'' = Inr ?q"
    by (simp add: member_def nullish_def)
  have h3: "opt_member ?q ''pages'' = JArr (JObj ?kvs # [])"
    by (simp add: opt_member_def nullish_def)
  have h4: "\<not> truthy (property (JObj ?kvs) ''missing'')"
    by simp
  have h5: "nullish (property (JObj ?kvs) ''categories'')
         \<or> (\<exists>cs. property (JObj ?kvs) ''categories'' = JArr cs \<and> \<not> list_ex nullish cs)"
    by (simp add: nullish_def)
  show ?thesis
    using getPage_defaults [OF h1 h2 h3 h4 h5]
    by (simp add: nullish_def opt_index0_def opt_member_def)
qed

section \<open>Category members: the normalised request\<close>

lemma categoryTitle_prefixed: "categoryTitle (''Category:'' @ name) = ''Category:'' @ name"
  by (simp add: categoryTitle_def startsWith_def)

text \<open>
  C5.  For a category name that does not start with \<open>Category:\<close>, \<open>getCategoryMembers\<close>
  puts that prefix before it and issues the call with it: the request it sends to the
  transport has \<open>cmtitle\<close> set to the prefixed name, its result is what the transport
  answers to exactly that request, and the call with the bare name and the call with the
  prefixed name build the same request parameters for every limit and type.  A transport
  that echoes the request shows the request of either call.
\<close>

theorem getCategoryMembers_normalized:
  assumes "\<not> startsWith name ''Category:''"
  shows "categoryTitle name = ''Category:'' @ name
    \<and> map_of (getCategoryMembers_params name limit type) ''cmtitle''
        = Some (JStr (''Category:'' @ name))
    \<and> getCategoryMembers_params name limit type
        = getCategoryMembers_params (''Category:'' @ name) limit type
    \<and> getCategoryMembers axios name limit type
        = getCategoryMembers axios (''Category:'' @ name) limit type
    \<and> sent_params (getCategoryMembers_params name limit type) =
        [(''format'', JStr ''json''), (''formatversion'', JNum 2),
         (''action'', JStr ''query''), (''list'', JStr ''categorymembers''),
         (''cmtitle'', JStr (''Category:'' @ name)),
         (''cmlimit'', JNum (default_to 50 limit)),
         (''cmprop'', JStr ''ids|title|timestamp'')]
        @ (case type of None \<Rightarrow> []
           | Some t \<Rightarrow> if t = [] then [] else [(''cmtype'', JStr t)])
    \<and> getCategoryMembers axios name limit type =
        (case axios (sent_params (getCategoryMembers_params name limit type)) of
           Response data \<Rightarrow>
             and_then (member data ''query'') (\<lambda>q.
               Inr (js_or (opt_member q ''categorymembers'') (JArr [])))
         | AxiosError response message \<Rightarrow> Inl (Error (failure_message response message))
         | OtherError e \<Rightarrow> Inl (Rethrown e))
    \<and> getCategoryMembers
          (\<lambda>ps. Response (JObj [(''query'', JObj [(''categorymembers'', JObj ps)])]))
          (''Category:'' @ name) limit type
        = Inr (JObj
           ([(''format'', JStr ''json''), (''formatversion'', JNum 2),
             (''action'', JStr ''query''), (''list'', JStr ''categorymembers''),
             (''cmtitle'', JStr (''Category:'' @ name)),
             (''cmlimit'', JNum (default_to 50 limit)),
             (''cmprop'', JStr ''ids|title|timestamp'')]
            @ (case type of None \<Rightarrow> []
               | Some t \<Rightarrow> if t = [] then [] else [(''cmtype'', JStr t)])))"
proof -
  have t: "categoryTitle name = ''Category:'' @ name"
    using assms by (simp add: categoryTitle_def)
  have p: "getCategoryMembers_params name limit type
        = getCategoryMembers_params (''Category:'' @ name) limit type"
    by (simp only: getCategoryMembers_params_def t categoryTitle_prefixed)
  have m: "map_of (getCategoryMembers_params name limit type) ''cmtitle''
        = Some (JStr (''Category:'' @ name))"
    by (simp add: getCategoryMembers_params_def t assign_if_truthy_def split: option.split)
  have g: "getCategoryMembers axios name limit type
        = getCategoryMembers axios (''Category:'' @ name) limit type"
    by (simp add: getCategoryMembers_def p)
  have s: "sent_params (getCategoryMembers_params name limit type) =
        [(''format'', JStr ''json''), (''formatversion'', JNum 2),
         (''action'', JStr ''query''), (''list'', JStr ''categorymembers''),
         (''cmtitle'', JStr (''Category:'' @ name)),
         (''cmlimit'', JNum (default_to 50 limit)),
         (''cmprop'', JStr ''ids|title|timestamp'')]
        @ (case type of None \<Rightarrow> []
           | Some t \<Rightarrow> if t = [] then [] else [(''cmtype'', JStr t)])"
    by (simp add: sent_params_def spread_def getCategoryMembers_params_def t
        assign_if_truthy_def split: option.split)
  have c: "getCategoryMembers axios name limit type =
        (case axios (sent_params (getCategoryMembers_params name limit type)) of
           Response data \<Rightarrow>
             and_then (member data ''query'') (\<lambda>q.
               Inr (js_or (opt_member q ''categorymembers'') (JArr [])))
         | AxiosError response message \<Rightarrow> Inl (Error (failure_message response message))
         | OtherError e \<Rightarrow> Inl (Rethrown e))"
    by (simp add: getCategoryMembers_def apiRequest_def and_then_def
        split: axios_result.split)
  have e: "getCategoryMembers
          (\<lambda>ps. Response (JObj [(''query'', JObj [(''categorymembers'', JObj ps)])]))
          (''Category:'' @ name) limit type
        = Inr (JObj
           ([(''format'', JStr ''json''), (''formatversion'', JNum 2),
             (''action'', JStr ''query''), (''list'', JStr ''categorymembers''),
             (''cmtitle'', JStr (''Category:'' @ name)),
             (''cmlimit'', JNum (default_to 50 limit)),
             (''cmprop'', JStr ''ids|title|timestamp'')]
            @ (case type of None \<Rightarrow> []
               | Some t \<Rightarrow> if t = [] then [] else [(''cmtype'', JStr t)])))"
    unfolding p [symmetric] getCategoryMembers_def apiRequest_def s
    by (simp add: and_then_def member_def nullish_def opt_member_def js_or_def)
  show ?thesis
    by (intro conjI; (rule t p m g s c e))
qed

theorem getCategoryMembers_normalized_witness:
  "\<not> startsWith ''Foo'' ''Category:''
   \<and> getCategoryMembers
        (\<lambda>ps. Response (JObj [(''query'', JObj [(''categorymembers'', JObj ps)])]))
        ''Foo'' (Some 50) (Some ''page'')
      = Inr (JObj
          [(''format'', JStr ''json''), (''formatversion'', JNum 2),
           (''action'', JStr ''query''), (''list'', JStr ''categorymembers''),
           (''cmtitle'', JStr ''Category:Foo''), (''cmlimit'', JNum 50),
           (''cmprop'', JStr ''ids|title|timestamp''), (''cmtype'', JStr ''page'')])
   \<and> getCategoryMembers
        (\<lambda>ps. Response (JObj [(''query'', JObj [(''categorymembers'', JObj ps)])]))
        ''Category:Foo'' (Some 50) (Some ''page'')
      = Inr (JObj
          [(''format'', JStr ''json''), (''formatversion'', JNum 2),
           (''action'', JStr ''query''), (''list'', JStr ''categorymembers''),
           (''cmtitle'', JStr ''Category:Foo''), (''cmlimit'', JNum 50),
           (''cmprop'', JStr ''ids|title|timestamp''), (''cmtype'', JStr ''page'')])"
proof -
  let ?echo = "\<lambda>ps::params. Response (JObj [(''query'', JObj [(''categorymembers'', JObj ps)])])"
  have h: "\<not> startsWith ''Foo'' ''Category:''"
    by (simp add: startsWith_def)
  note w = getCategoryMembers_normalized
      [OF h, where limit = "Some 50" and type = "Some ''page''" and axios = ?echo]
  have prefixed: "getCategoryMembers ?echo ''Category:Foo'' (Some 50) (Some ''page'')
      = Inr (JObj
          [(''format'', JStr ''json''), (''formatversion'', JNum 2),
           (''action'', JStr ''query''), (''list'', JStr ''categorymembers''),
           (''cmtitle'', JStr ''Category:Foo''), (''cmlimit'', JNum 50),
           (''cmprop'', JStr ''ids|title|timestamp''), (''cmtype'', JStr ''page'')])"
    using w [THEN conjunct2, THEN conjunct2, THEN conjunct2, THEN conjunct2, THEN conjunct2,
             THEN conjunct2]
    by (simp add: default_to_def)
  have bare: "getCategoryMembers ?echo ''Foo'' (Some 50) (Some ''page'')
      = Inr (JObj
          [(''format'', JStr ''json''), (''formatversion'', JNum 2),
           (''action'', JStr ''query''), (''list'', JStr ''categorymembers''),
           (''cmtitle'', JStr ''Category:Foo''), (''cmlimit'', JNum 50),
           (''cmprop'', JStr ''ids|title|timestamp''), (''cmtype'', JStr ''page'')])"
    using w [THEN conjunct2, THEN conjunct2, THEN conjunct2, THEN conjunct1] prefixed
    by simp
  show ?thesis
    by (intro conjI; (rule h bare prefixed))
qed

section \<open>Page addresses: what \<open>getPageUrl\<close> returns\<close>

lemma hex_value_hex_digit: "k < 16 \<Longrightarrow> hex_value (hex_digit k) = Some k"
proof -
  assume "k < 16"
  then have "k \<in> {0,1,2,3,4,5,6,7,8,9,10,11,12,13,14,15}"
    by simp arith
  then show ?thesis
    by (auto simp: hex_value_def hex_digit_def)
qed

lemma percent_not_unreserved: "\<not> uriUnreserved (CHR ''%'')"
  by (simp add: uriUnreserved_def)

lemma percent_decode_byte:
  "percent_decode (percent_byte c @ rest) = map_option ((#) c) (percent_decode rest)"
proof -
  have hi: "(of_char c :: nat) div 16 < 16"
    using nat_of_char_less_256 [of c] by (simp add: less_mult_imp_div_less)
  have lo: "(of_char c :: nat) mod 16 < 16"
    by simp
  show ?thesis
    by (simp add: percent_byte_def hex_value_hex_digit [OF hi] hex_value_hex_digit [OF lo])
qed

lemma encodeURIComponent_Cons:
  "encodeURIComponent (c # s) =
     (if uriUnreserved c then [c] else percent_byte c) @ encodeURIComponent s"
  by (simp add: encodeURIComponent_def)

lemma percent_decode_encode: "percent_decode (encodeURIComponent s) = Some s"
proof (induction s)
  case Nil
  then show ?case
    by (simp add: encodeURIComponent_def)
next
  case (Cons c s)
  show ?case
  proof (cases "uriUnreserved c")
    case True
    then have "c \<noteq> CHR ''%''"
      using percent_not_unreserved by auto
    with True Cons show ?thesis
      by (simp add: encodeURIComponent_Cons)
  next
    case False
    with Cons show ?thesis
      by (simp add: encodeURIComponent_Cons percent_decode_byte)
  qed
qed

lemma replace_spaces_variant: "space_variant s t \<Longrightarrow> replace_spaces s = replace_spaces t"
  unfolding space_variant_def replace_spaces_def
  by (induction s t rule: list_all2_induct) auto

lemma replace_spaces_fixed: "(replace_spaces s = s) = (CHR '' '' \<notin> set s)"
  by (induction s) (auto simp: replace_spaces_def)

lemma replace_spaces_no_space: "CHR '' '' \<notin> set (replace_spaces s)"
  by (auto simp: replace_spaces_def)

text \<open>
  C4, as the code has it.  For every title, \<open>getPageUrl\<close> is the client's base address
  (the configured one without its trailing slash), then \<open>/index.php/\<close>, then the
  percent-encoding of the title with every space replaced by an underscore.
  Percent-decoding that last segment always succeeds and gives the title with its spaces
  replaced; it gives the original title exactly when the title has no space.  For
  \<open>Main Page\<close> the address ends in \<open>Main_Page\<close>; for \<open>C++\<close> it ends in \<open>C%2B%2B\<close>, which
  decodes to \<open>C++\<close>.
\<close>

theorem getPageUrl_encoded_title:
  "getPageUrl client title =
     baseUrl client @ ''/index.php/'' @ encodeURIComponent (replace_spaces title)
   \<and> baseUrl (new_MediaWikiClient config) = strip_trailing_slash (cfg_baseUrl config)
   \<and> length (replace_spaces title) = length title
   \<and> CHR '' '' \<notin> set (replace_spaces title)
   \<and> percent_decode (encodeURIComponent (replace_spaces title)) = Some (replace_spaces title)
   \<and> (percent_decode (encodeURIComponent (replace_spaces title)) = Some title)
       = (CHR '' '' \<notin> set title)
   \<and> getPageUrl client ''Main Page'' = baseUrl client @ ''/index.php/Main_Page''
   \<and> getPageUrl client ''C++'' = baseUrl client @ ''/index.php/C%2B%2B''
   \<and> percent_decode ''C%2B%2B'' = Some ''C++''"
proof -
  have url: "getPageUrl client title =
      baseUrl client @ ''/index.php/'' @ encodeURIComponent (replace_spaces title)"
    by (simp add: getPageUrl_def)
  have base: "baseUrl (new_MediaWikiClient config) = strip_trailing_slash (cfg_baseUrl config)"
    by (simp add: new_MediaWikiClient_def Let_def)
  have len: "length (replace_spaces title) = length title"
    by (simp add: replace_spaces_def)
  have dec: "percent_decode (encodeURIComponent (replace_spaces title))
      = Some (replace_spaces title)"
    by (rule percent_decode_encode)
  have orig: "(percent_decode (encodeURIComponent (replace_spaces title)) = Some title)
      = (CHR '' '' \<notin> set title)"
    by (simp add: percent_decode_encode replace_spaces_fixed)
  have mainpage: "getPageUrl client ''Main Page'' = baseUrl client @ ''/index.php/Main_Page''"
    by (simp add: getPageUrl_def encodeURIComponent_def replace_spaces_def uriUnreserved_def)
  have cpp: "getPageUrl client ''C++'' = baseUrl client @ ''/index.php/C%2B%2B''"
    by (simp add: getPageUrl_def encodeURIComponent_def replace_spaces_def uriUnreserved_def
        percent_byte_def hex_digit_def)
  have cpp_dec: "percent_decode ''C%2B%2B'' = Some ''C++''"
    by code_simp
  show ?thesis
    by (intro conjI; (rule url base len replace_spaces_no_space dec orig mainpage cpp cpp_dec))
qed

text \<open>
  C4, as the specification words it, fails on a title that needs escaping and has a
  space: the segment for \<open>C++ FAQ\<close> is \<open>C%2B%2B_FAQ\<close>, which decodes to \<open>C++_FAQ\<close>, not
  to the title.
\<close>

theorem getPageUrl_decode_counterexample:
  "getPageUrl \<lparr> baseUrl = ''https://wiki.example.org'',
                apiEndpoint = ''https://wiki.example.org/api.php'',
                authorization = None \<rparr> ''C++ FAQ''
     = ''https://wiki.example.org/index.php/C%2B%2B_FAQ''
   \<and> percent_decode ''C%2B%2B_FAQ'' = Some ''C++_FAQ''
   \<and> percent_decode ''C%2B%2B_FAQ'' \<noteq> Some ''C++ FAQ''"
  by code_simp

text \<open>
  C10.  Two titles that differ only in that some spaces of one are underscores in the
  other get the same address, so \<open>getPageUrl\<close> is not injective and the address does
  not tell the two titles apart.
\<close>

theorem getPageUrl_space_variants:
  assumes "space_variant s t"
  shows "getPageUrl client s = getPageUrl client t \<and> \<not> inj (getPageUrl client)"
proof -
  have same: "getPageUrl client s = getPageUrl client t"
    using replace_spaces_variant [OF assms] by (simp add: getPageUrl_def)
  have "getPageUrl client '' '' = getPageUrl client ''_''"
    by (simp add: getPageUrl_def replace_spaces_def)
  moreover have "'' '' \<noteq> ''_''"
    by simp
  ultimately have "\<not> inj (getPageUrl client)"
    unfolding inj_def by blast
  with same show ?thesis
    by simp
qed

theorem getPageUrl_space_variants_witness:
  "space_variant ''Main Page'' ''Main_Page''
   \<and> ''Main Page'' \<noteq> ''Main_Page''
   \<and> getPageUrl \<lparr> baseUrl = ''https://wiki.example.org'',
                  apiEndpoint = ''https://wiki.example.org/api.php'',
                  authorization = None \<rparr> ''Main Page''
     = getPageUrl \<lparr> baseUrl = ''https://wiki.example.org'',
                    apiEndpoint = ''https://wiki.example.org/api.php'',
                    authorization = None \<rparr> ''Main_Page''"
proof -
  have v: "space_variant ''Main Page'' ''Main_Page''"
    by (simp add: space_variant_def)
  show ?thesis
    using v getPageUrl_space_variants [OF v] by simp
qed

section \<open>Rendering\<close>

lemma forEach_text_nth:
  "forEach_text entry xs = concat (map (\<lambda>i. entry (xs ! i) i) [0..<length xs])"
proof -
  have "map (\<lambda>(index, x). entry x index) (enumerate 0 xs)
      = map (\<lambda>i. entry (xs ! i) i) [0..<length xs]"
    by (rule nth_equalityI) (simp_all add: nth_enumerate_eq)
  then show ?thesis
    by (simp add: forEach_text_def)
qed

lemma set_digits: "set (digits n) \<subseteq> set ''0123456789''"
proof (induction n rule: digits.induct)
  case (1 n)
  have d: "k < 10 \<Longrightarrow> ''0123456789'' ! k \<in> set ''0123456789''" for k :: nat
    using nth_mem [of k "''0123456789''"] by simp
  show ?case
  proof (cases "n < 10")
    case True
    then show ?thesis
      using d [of n] by (subst digits.simps) simp
  next
    case False
    then show ?thesis
      using 1 d [of "n mod 10"] by (subst digits.simps) simp
  qed
qed

lemma number_string_no_paren:
  "CHR ''('' \<notin> set (number_string n) \<and> CHR '')'' \<notin> set (number_string n)"
  using set_digits [of "nat n"] set_digits [of "nat (- n)"]
  by (auto simp: number_string_def)

subsection \<open>Snippets\<close>

lemma set_strip_tags: "set (strip_tags s) \<subseteq> set s"
proof (induction s rule: strip_tags.induct)
  case 1
  then show ?case
    by simp
next
  case (2 c cs)
  show ?case
  proof (cases "c = CHR ''<'' \<and> CHR ''>'' \<in> set cs")
    case True
    have "set (tl (dropWhile (\<lambda>x. x \<noteq> CHR ''>'') cs)) \<subseteq> set cs"
    proof -
      have "set (tl ys) \<subseteq> set ys" for ys :: string
        by (cases ys) auto
      moreover have "set (dropWhile (\<lambda>x. x \<noteq> CHR ''>'') cs) \<subseteq> set cs"
        by (auto dest: set_dropWhileD)
      ultimately show ?thesis
        by blast
    qed
    with True 2 show ?thesis
      by auto
  next
    case False
    with 2 show ?thesis
      by auto
  qed
qed

lemma strip_tags_no_tag: "strip_tags s \<noteq> a @ CHR ''<'' # b @ CHR ''>'' # c"
proof (induction s arbitrary: a rule: strip_tags.induct)
  case 1
  then show ?case
    by simp
next
  case (2 c' cs)
  show ?case
  proof (cases "c' = CHR ''<'' \<and> CHR ''>'' \<in> set cs")
    case True
    with 2 show ?thesis
      by simp
  next
    case False
    show ?thesis
    proof
      assume "strip_tags (c' # cs) = a @ CHR ''<'' # b @ CHR ''>'' # c"
      with False have e: "c' # strip_tags cs = a @ CHR ''<'' # b @ CHR ''>'' # c"
        by auto
      show False
      proof (cases a)
        case Nil
        with e have lt: "c' = CHR ''<''" and "strip_tags cs = b @ CHR ''>'' # c"
          by auto
        then have "CHR ''>'' \<in> set (strip_tags cs)"
          by simp
        then have "CHR ''>'' \<in> set cs"
          using set_strip_tags by blast
        with False lt show False
          by simp
      next
        case (Cons x a')
        with e have "strip_tags cs = a' @ CHR ''<'' # b @ CHR ''>'' # c"
          by simp
        with 2(2) [OF False] show False
          by blast
      qed
    qed
  qed
qed

lemma strip_tags_plain: "CHR ''<'' \<notin> set a \<Longrightarrow> strip_tags (a @ r) = a @ strip_tags r"
  by (induction a) auto

lemma dropWhile_tag:
  "CHR ''>'' \<notin> set t \<Longrightarrow> dropWhile (\<lambda>x. x \<noteq> CHR ''>'') (t @ CHR ''>'' # r) = CHR ''>'' # r"
  by (induction t) auto

lemma strip_tags_tag:
  assumes "CHR ''<'' \<notin> set a" and "CHR ''>'' \<notin> set t"
  shows "strip_tags (a @ CHR ''<'' # t @ CHR ''>'' # r) = a @ strip_tags r"
  using assms by (simp add: strip_tags_plain dropWhile_tag)

lemma strip_tags_open: "CHR ''>'' \<notin> set s \<Longrightarrow> strip_tags s = s"
  by (induction s) auto

text \<open>
  C7.  The snippet line of every search result shows the snippet with its tags
  stripped.  The stripped text holds no \<open><\<close> with a \<open>>\<close> after it; a tag (a \<open><\<close>, characters
  other than \<open>>\<close>, a \<open>>\<close>) after text without \<open><\<close> is removed and the text before it kept;
  a snippet without \<open><\<close> or without \<open>>\<close> is shown as it is; and
  \<open><span>hello</span> world\<close> is shown as \<open>hello world\<close>.
\<close>

theorem search_snippet_stripped:
  "strip_tags snippet \<noteq> a @ CHR ''<'' # b @ CHR ''>'' # c
   \<and> (CHR ''<'' \<notin> set pre \<and> CHR ''>'' \<notin> set tag \<longrightarrow>
        strip_tags (pre @ CHR ''<'' # tag @ CHR ''>'' # rest) = pre @ strip_tags rest)
   \<and> (CHR ''<'' \<notin> set snippet \<or> CHR ''>'' \<notin> set snippet \<longrightarrow> strip_tags snippet = snippet)
   \<and> strip_tags ''<span>hello</span> world'' = ''hello world''
   \<and> (\<exists>head tail. search_entry rt client result index =
          head @ ''   Snippet: '' @ strip_tags (sr_snippet result) @ ''\<newline>'' @ tail)
   \<and> (results \<noteq> [] \<longrightarrow>
        search_pages rt client query (Inr results) =
          Inr (''Found '' @ number_string (int (length results)) @ '' results for '' @
               quoted query @ '':\<newline>\<newline>'' @
               concat (map (\<lambda>i. search_entry rt client (results ! i) i)
                         [0..<length results])))"
proof -
  have plain: "CHR ''<'' \<notin> set snippet \<or> CHR ''>'' \<notin> set snippet
      \<longrightarrow> strip_tags snippet = snippet"
    using strip_tags_plain [of snippet "[]"] strip_tags_open [of snippet] by auto
  have tag: "CHR ''<'' \<notin> set pre \<and> CHR ''>'' \<notin> set tag \<longrightarrow>
        strip_tags (pre @ CHR ''<'' # tag @ CHR ''>'' # rest) = pre @ strip_tags rest"
    using strip_tags_tag by blast
  have example: "strip_tags ''<span>hello</span> world'' = ''hello world''"
    by simp
  have entry: "\<exists>head tail. search_entry rt client result index =
          head @ ''   Snippet: '' @ strip_tags (sr_snippet result) @ ''\<newline>'' @ tail"
    unfolding search_entry_def by (metis append.assoc)
  have all: "results \<noteq> [] \<longrightarrow>
        search_pages rt client query (Inr results) =
          Inr (''Found '' @ number_string (int (length results)) @ '' results for '' @
               quoted query @ '':\<newline>\<newline>'' @
               concat (map (\<lambda>i. search_entry rt client (results ! i) i)
                         [0..<length results]))"
    by (simp add: search_pages_def and_then_Inr forEach_text_nth)
  show ?thesis
    by (intro conjI; (rule strip_tags_no_tag plain tag example entry all))
qed

theorem search_snippet_stripped_witness:
  "strip_tags ''see <b>bold</b> text'' = ''see bold text''
   \<and> strip_tags ''1 < 2'' = ''1 < 2''
   \<and> search_pages
        \<lparr> dateToLocaleString = (\<lambda>_. ''Jan 5, 2024, 10:30 AM''), toUpperCase = (\<lambda>s. s) \<rparr>
        \<lparr> baseUrl = ''https://wiki.example.org'',
          apiEndpoint = ''https://wiki.example.org/api.php'', authorization = None \<rparr>
        ''hello''
        (Inr [\<lparr> sr_title = ''Main Page'', sr_pageid = 1,
                sr_snippet = ''<span>hello</span> world'', sr_wordcount = 2, sr_size = 11,
                sr_timestamp = ''2024-01-05T10:30:00Z'' \<rparr>])
      = Inr (''Found 1 results for '' @ [CHR 0x22] @ ''hello'' @ [CHR 0x22] @
             '':\<newline>\<newline>1. **Main Page**\<newline>'' @
             ''   URL: https://wiki.example.org/index.php/Main_Page\<newline>'' @
             ''   Snippet: hello world\<newline>'' @
             ''   Size: 11 bytes | Words: 2 | Modified: Jan 5, 2024, 10:30 AM\<newline>\<newline>'')"
proof -
  let ?rt = "\<lparr> dateToLocaleString = (\<lambda>_::json. ''Jan 5, 2024, 10:30 AM''),
               toUpperCase = (\<lambda>s::string. s) \<rparr>"
  let ?client = "\<lparr> baseUrl = ''https://wiki.example.org'',
          apiEndpoint = ''https://wiki.example.org/api.php'', authorization = None \<rparr>"
  let ?result = "\<lparr> sr_title = ''Main Page'', sr_pageid = 1,
                sr_snippet = ''<span>hello</span> world'', sr_wordcount = 2, sr_size = 11,
                sr_timestamp = ''2024-01-05T10:30:00Z'' \<rparr>"
  have url: "getPageUrl ?client ''Main Page'' = ''https://wiki.example.org/index.php/Main_Page''"
    by (simp add: getPageUrl_def encodeURIComponent_def replace_spaces_def uriUnreserved_def)
  note w = search_snippet_stripped
      [where pre = "''see ''" and tag = "''b''" and rest = "''bold</b> text''"
         and snippet = "''1 < 2''" and results = "[?result]" and rt = ?rt
         and client = ?client and query = "''hello''"]
  have tagged: "strip_tags ''see <b>bold</b> text'' = ''see bold text''"
    using w [THEN conjunct2, THEN conjunct1] by simp
  have plain: "strip_tags ''1 < 2'' = ''1 < 2''"
    using w [THEN conjunct2, THEN conjunct2, THEN conjunct1] by simp
  have found: "search_pages ?rt ?client ''hello'' (Inr [?result])
      = Inr (''Found 1 results for '' @ [CHR 0x22] @ ''hello'' @ [CHR 0x22] @
             '':\<newline>\<newline>1. **Main Page**\<newline>'' @
             ''   URL: https://wiki.example.org/index.php/Main_Page\<newline>'' @
             ''   Snippet: hello world\<newline>'' @
             ''   Size: 11 bytes | Words: 2 | Modified: Jan 5, 2024, 10:30 AM\<newline>\<newline>'')"
    using w [THEN conjunct2, THEN conjunct2, THEN conjunct2, THEN conjunct2, THEN conjunct2]
    by (simp add: search_entry_def url quoted_def number_string_def digits.simps
        formatTimestamp_def)
  show ?thesis
    by (intro conjI; (rule tagged plain found))
qed

subsection \<open>Size changes in a page history\<close>

text \<open>
  C2.  In the text of \<open>get_page_history\<close>, every revision but the last of the sequence
  shows the difference of its size and the size of the next revision of the sequence;
  a positive difference \<open>d\<close> is shown as \<open>(+d)\<close>, a negative one in parentheses with its
  sign, a difference of zero as nothing, and the last revision shows nothing.  Sizes
  500, 420, 420 show \<open>(+80)\<close>, nothing, and nothing.
\<close>

theorem history_size_delta:
  "(i + 1 < length revisions \<longrightarrow>
      history_sizeDiff revisions (revisions ! i) i =
        rev_size (revisions ! i) - rev_size (revisions ! (i + 1)))
   \<and> (i + 1 = length revisions \<longrightarrow>
        history_diffText (history_sizeDiff revisions (revisions ! i) i) = [])
   \<and> (0 < d \<longrightarrow> history_diffText d = ''(+'' @ number_string d @ '')'')
   \<and> (d < 0 \<longrightarrow> history_diffText d = ''(-'' @ digits (nat (- d)) @ '')'')
   \<and> history_diffText 0 = []
   \<and> (\<exists>head. history_entry rt revisions revision index =
         head @ '' bytes '' @ history_diffText (history_sizeDiff revisions revision index) @
         ''\<newline>\<newline>'')
   \<and> (revisions \<noteq> [] \<longrightarrow>
        get_page_history rt title (Inr revisions) =
          Inr (''# Revision History: '' @ title @
               ''\<newline>\<newline>## Recent Changes\<newline>\<newline>'' @
               concat (map (\<lambda>i. history_entry rt revisions (revisions ! i) i)
                         [0..<length revisions])))
   \<and> (map rev_size revisions = [500, 420, 420] \<longrightarrow>
        map (\<lambda>i. history_diffText (history_sizeDiff revisions (revisions ! i) i)) [0, 1, 2]
          = [''(+80)'', [], []])"
proof -
  have older: "i + 1 < length revisions \<longrightarrow>
      history_sizeDiff revisions (revisions ! i) i =
        rev_size (revisions ! i) - rev_size (revisions ! (i + 1))"
    by (simp add: history_sizeDiff_def)
  have oldest: "i + 1 = length revisions \<longrightarrow>
        history_diffText (history_sizeDiff revisions (revisions ! i) i) = []"
    by (auto simp: history_sizeDiff_def history_diffText_def)
  have pos: "0 < d \<longrightarrow> history_diffText d = ''(+'' @ number_string d @ '')''"
    by (simp add: history_diffText_def)
  have neg: "d < 0 \<longrightarrow> history_diffText d = ''(-'' @ digits (nat (- d)) @ '')''"
    by (simp add: history_diffText_def number_string_def)
  have zero: "history_diffText 0 = []"
    by (simp add: history_diffText_def)
  have entry: "\<exists>head. history_entry rt revisions revision index =
         head @ '' bytes '' @ history_diffText (history_sizeDiff revisions revision index) @
         ''\<newline>\<newline>''"
    unfolding history_entry_def by (metis append.assoc)
  have all: "revisions \<noteq> [] \<longrightarrow>
        get_page_history rt title (Inr revisions) =
          Inr (''# Revision History: '' @ title @
               ''\<newline>\<newline>## Recent Changes\<newline>\<newline>'' @
               concat (map (\<lambda>i. history_entry rt revisions (revisions ! i) i)
                         [0..<length revisions]))"
    by (simp add: get_page_history_def and_then_Inr forEach_text_nth)
  have example: "map rev_size revisions = [500, 420, 420] \<longrightarrow>
        map (\<lambda>i. history_diffText (history_sizeDiff revisions (revisions ! i) i)) [0, 1, 2]
          = [''(+80)'', [], []]"
  proof
    assume m: "map rev_size revisions = [500, 420, 420]"
    then obtain r0 r1 r2 where r: "revisions = [r0, r1, r2]"
      by (auto simp: map_eq_Cons_conv)
    with m have sizes: "rev_size r0 = 500" "rev_size r1 = 420" "rev_size r2 = 420"
      by simp_all
    show "map (\<lambda>i. history_diffText (history_sizeDiff revisions (revisions ! i) i)) [0, 1, 2]
          = [''(+80)'', [], []]"
      by (simp add: r sizes history_sizeDiff_def history_diffText_def number_string_def
          digits.simps)
  qed
  show ?thesis
    by (intro conjI; (rule older oldest pos neg zero entry all example))
qed

theorem history_size_delta_witness:
  "let revisions =
         [\<lparr> rev_revid = 3, rev_parentid = 2, rev_timestamp = ''c'', rev_user = ''Ann'',
            rev_comment = ''more'', rev_size = 500, rev_minor = None \<rparr>,
          \<lparr> rev_revid = 2, rev_parentid = 1, rev_timestamp = ''b'', rev_user = ''Bob'',
            rev_comment = [], rev_size = 420, rev_minor = Some True \<rparr>,
          \<lparr> rev_revid = 1, rev_parentid = 0, rev_timestamp = ''a'', rev_user = ''Ann'',
            rev_comment = ''start'', rev_size = 420, rev_minor = None \<rparr>];
       rt = \<lparr> dateToLocaleString = (\<lambda>_. ''Jan 5, 2024, 10:30 AM''),
              toUpperCase = (\<lambda>s. s) \<rparr>
   in history_sizeDiff revisions (revisions ! 0) 0 = 80
    \<and> history_diffText (history_sizeDiff revisions (revisions ! 2) 2) = []
    \<and> map (\<lambda>i. history_diffText (history_sizeDiff revisions (revisions ! i) i)) [0, 1, 2]
        = [''(+80)'', [], []]
    \<and> history_diffText 80 = ''(+80)''
    \<and> history_diffText (- 80) = ''(-80)''
    \<and> get_page_history rt ''T'' (Inr revisions)
      = Inr (''# Revision History: T\<newline>\<newline>## Recent Changes\<newline>\<newline>'' @
             ''1. [Revision 3] Jan 5, 2024, 10:30 AM\<newline>'' @
             ''   By: Ann\<newline>   Comment: more\<newline>   Size: 500 bytes (+80)\<newline>\<newline>'' @
             ''2. [Revision 2] Jan 5, 2024, 10:30 AM (minor)\<newline>'' @
             ''   By: Bob\<newline>   Comment: No comment\<newline>   Size: 420 bytes \<newline>\<newline>'' @
             ''3. [Revision 1] Jan 5, 2024, 10:30 AM\<newline>'' @
             ''   By: Ann\<newline>   Comment: start\<newline>   Size: 420 bytes \<newline>\<newline>'')"
proof -
  let ?rt = "\<lparr> dateToLocaleString = (\<lambda>_::json. ''Jan 5, 2024, 10:30 AM''),
               toUpperCase = (\<lambda>s::string. s) \<rparr>"
  let ?revs =
       "[\<lparr> rev_revid = 3, rev_parentid = 2, rev_timestamp = ''c'', rev_user = ''Ann'',
            rev_comment = ''more'', rev_size = 500, rev_minor = None \<rparr>,
          \<lparr> rev_revid = 2, rev_parentid = 1, rev_timestamp = ''b'', rev_user = ''Bob'',
            rev_comment = [], rev_size = 420, rev_minor = Some True \<rparr>,
          \<lparr> rev_revid = 1, rev_parentid = 0, rev_timestamp = ''a'', rev_user = ''Ann'',
            rev_comment = ''start'', rev_size = 420, rev_minor = None \<rparr>]"
  note w = history_size_delta [where revisions = ?revs and rt = ?rt and title = "''T''"]
  have newest: "history_sizeDiff ?revs (?revs ! 0) 0 = 80"
    using w [where i = 0, THEN conjunct1] by simp
  have oldest: "history_diffText (history_sizeDiff ?revs (?revs ! 2) 2) = []"
    using w [where i = 2, THEN conjunct2, THEN conjunct1] by simp
  have three: "map (\<lambda>i. history_diffText (history_sizeDiff ?revs (?revs ! i) i)) [0, 1, 2]
        = [''(+80)'', [], []]"
    using w [where i = 0, THEN conjunct2, THEN conjunct2, THEN conjunct2, THEN conjunct2,
             THEN conjunct2, THEN conjunct2, THEN conjunct2]
    by simp
  have pos: "history_diffText 80 = ''(+80)''"
    using w [where d = 80, THEN conjunct2, THEN conjunct2, THEN conjunct1]
    by (simp add: number_string_def digits.simps)
  have neg: "history_diffText (- 80) = ''(-80)''"
    using w [where d = "- 80", THEN conjunct2, THEN conjunct2, THEN conjunct2, THEN conjunct1]
    by (simp add: digits.simps)
  have rendered: "get_page_history ?rt ''T'' (Inr ?revs)
      = Inr (''# Revision History: T\<newline>\<newline>## Recent Changes\<newline>\<newline>'' @
             ''1. [Revision 3] Jan 5, 2024, 10:30 AM\<newline>'' @
             ''   By: Ann\<newline>   Comment: more\<newline>   Size: 500 bytes (+80)\<newline>\<newline>'' @
             ''2. [Revision 2] Jan 5, 2024, 10:30 AM (minor)\<newline>'' @
             ''   By: Bob\<newline>   Comment: No comment\<newline>   Size: 420 bytes \<newline>\<newline>'' @
             ''3. [Revision 1] Jan 5, 2024, 10:30 AM\<newline>'' @
             ''   By: Ann\<newline>   Comment: start\<newline>   Size: 420 bytes \<newline>\<newline>'')"
    using w [where i = 0, THEN conjunct2, THEN conjunct2, THEN conjunct2, THEN conjunct2,
             THEN conjunct2, THEN conjunct2, THEN conjunct1]
    by (simp add: upt_rec_numeral history_entry_def or_text_def number_string_def
        digits.simps formatTimestamp_def history_sizeDiff_def history_diffText_def)
  show ?thesis
    unfolding Let_def
    by (intro conjI; (rule newest oldest three pos neg rendered))
qed

subsection \<open>Size changes in the recent changes\<close>

text \<open>
  C6.  In the text of \<open>get_recent_changes\<close>, the size change of a change is its new
  length less its old length; a positive one is shown with a \<open>+\<close> before its digits, a
  negative one with its \<open>-\<close>, zero as \<open>0\<close>, and none is shown with parentheses.  Lengths
  100 then 80 show \<open>-20\<close>; 100 then 150 show \<open>+50\<close>.
\<close>

theorem changes_size_delta:
  "changes_sizeDiff change = rc_newlen change - rc_oldlen change
   \<and> (0 < d \<longrightarrow> changes_diffText d = CHR ''+'' # digits (nat d))
   \<and> (d < 0 \<longrightarrow> changes_diffText d = CHR ''-'' # digits (nat (- d)))
   \<and> changes_diffText 0 = ''0''
   \<and> CHR ''('' \<notin> set (changes_diffText d)
   \<and> CHR '')'' \<notin> set (changes_diffText d)
   \<and> (\<exists>head tail. changes_entry rt client change index =
         head @ ''   Size change: '' @
         changes_diffText (rc_newlen change - rc_oldlen change) @ '' bytes\<newline>'' @ tail)
   \<and> (changes \<noteq> [] \<longrightarrow>
        get_recent_changes rt client (Inr changes) =
          Inr (''# Recent Changes\<newline>\<newline>'' @
               concat (map (\<lambda>i. changes_entry rt client (changes ! i) i)
                         [0..<length changes])))
   \<and> (rc_oldlen change = 100 \<and> rc_newlen change = 80 \<longrightarrow>
        changes_diffText (changes_sizeDiff change) = ''-20'')
   \<and> (rc_oldlen change = 100 \<and> rc_newlen change = 150 \<longrightarrow>
        changes_diffText (changes_sizeDiff change) = ''+50'')"
proof -
  have diff: "changes_sizeDiff change = rc_newlen change - rc_oldlen change"
    by (simp add: changes_sizeDiff_def)
  have pos: "0 < d \<longrightarrow> changes_diffText d = CHR ''+'' # digits (nat d)"
    by (simp add: changes_diffText_def number_string_def)
  have neg: "d < 0 \<longrightarrow> changes_diffText d = CHR ''-'' # digits (nat (- d))"
    by (simp add: changes_diffText_def number_string_def)
  have zero: "changes_diffText 0 = ''0''"
    by (simp add: changes_diffText_def number_string_def digits.simps)
  have lp: "CHR ''('' \<notin> set (changes_diffText d)"
    using number_string_no_paren [of d] by (simp add: changes_diffText_def)
  have rp: "CHR '')'' \<notin> set (changes_diffText d)"
    using number_string_no_paren [of d] by (simp add: changes_diffText_def)
  have entry: "\<exists>head tail. changes_entry rt client change index =
         head @ ''   Size change: '' @
         changes_diffText (rc_newlen change - rc_oldlen change) @ '' bytes\<newline>'' @ tail"
    unfolding changes_entry_def changes_sizeDiff_def by (metis append.assoc)
  have all: "changes \<noteq> [] \<longrightarrow>
        get_recent_changes rt client (Inr changes) =
          Inr (''# Recent Changes\<newline>\<newline>'' @
               concat (map (\<lambda>i. changes_entry rt client (changes ! i) i)
                         [0..<length changes]))"
    by (simp add: get_recent_changes_def and_then_Inr forEach_text_nth)
  have down: "rc_oldlen change = 100 \<and> rc_newlen change = 80 \<longrightarrow>
        changes_diffText (changes_sizeDiff change) = ''-20''"
    by (simp add: changes_sizeDiff_def changes_diffText_def number_string_def digits.simps)
  have up: "rc_oldlen change = 100 \<and> rc_newlen change = 150 \<longrightarrow>
        changes_diffText (changes_sizeDiff change) = ''+50''"
    by (simp add: changes_sizeDiff_def changes_diffText_def number_string_def digits.simps)
  show ?thesis
    by (intro conjI; (rule diff pos neg zero lp rp entry all down up))
qed

theorem changes_size_delta_witness:
  "changes_diffText 50 = ''+50''
   \<and> changes_diffText (- 20) = ''-20''
   \<and> changes_diffText
        (changes_sizeDiff
           \<lparr> rc_type = ''edit'', rc_title = ''Main Page'', rc_pageid = 1, rc_revid = 9,
             rc_old_revid = 8, rc_rcid = 4, rc_user = ''Ann'', rc_timestamp = ''t'',
             rc_comment = ''grow'', rc_oldlen = 100, rc_newlen = 150 \<rparr>)
      = ''+50''
   \<and> get_recent_changes
        \<lparr> dateToLocaleString = (\<lambda>_. ''Jan 5, 2024, 10:30 AM''), toUpperCase = (\<lambda>s. s) \<rparr>
        \<lparr> baseUrl = ''https://wiki.example.org'',
          apiEndpoint = ''https://wiki.example.org/api.php'', authorization = None \<rparr>
        (Inr [\<lparr> rc_type = ''edit'', rc_title = ''Main Page'', rc_pageid = 1, rc_revid = 9,
                rc_old_revid = 8, rc_rcid = 4, rc_user = ''Ann'', rc_timestamp = ''t'',
                rc_comment = ''trim'', rc_oldlen = 100, rc_newlen = 80 \<rparr>])
      = Inr (''# Recent Changes\<newline>\<newline>'' @
             ''1. [edit] **Main Page** - Jan 5, 2024, 10:30 AM\<newline>'' @
             ''   By: Ann\<newline>   Comment: trim\<newline>   Size change: -20 bytes\<newline>'' @
             ''   URL: https://wiki.example.org/index.php/Main_Page\<newline>\<newline>'')"
proof -
  let ?rt = "\<lparr> dateToLocaleString = (\<lambda>_::json. ''Jan 5, 2024, 10:30 AM''),
               toUpperCase = (\<lambda>s::string. s) \<rparr>"
  let ?client = "\<lparr> baseUrl = ''https://wiki.example.org'',
          apiEndpoint = ''https://wiki.example.org/api.php'', authorization = None \<rparr>"
  let ?trim = "\<lparr> rc_type = ''edit'', rc_title = ''Main Page'', rc_pageid = 1, rc_revid = 9,
                rc_old_revid = 8, rc_rcid = 4, rc_user = ''Ann'', rc_timestamp = ''t'',
                rc_comment = ''trim'', rc_oldlen = 100, rc_newlen = 80 \<rparr>"
  let ?grow = "\<lparr> rc_type = ''edit'', rc_title = ''Main Page'', rc_pageid = 1, rc_revid = 9,
             rc_old_revid = 8, rc_rcid = 4, rc_user = ''Ann'', rc_timestamp = ''t'',
             rc_comment = ''grow'', rc_oldlen = 100, rc_newlen = 150 \<rparr>"
  note w = changes_size_delta [where rt = ?rt and client = ?client and changes = "[?trim]"]
  have pos: "changes_diffText 50 = ''+50''"
    using w [where d = 50, THEN conjunct2, THEN conjunct1] by (simp add: digits.simps)
  have neg: "changes_diffText (- 20) = ''-20''"
    using w [where d = "- 20", THEN conjunct2, THEN conjunct2, THEN conjunct1]
    by (simp add: digits.simps)
  have up: "changes_diffText (changes_sizeDiff ?grow) = ''+50''"
    using w [where change = ?grow, THEN conjunct2, THEN conjunct2, THEN conjunct2,
             THEN conjunct2, THEN conjunct2, THEN conjunct2, THEN conjunct2, THEN conjunct2,
             THEN conjunct2]
    by simp
  have url: "getPageUrl ?client ''Main Page'' = ''https://wiki.example.org/index.php/Main_Page''"
    by (simp add: getPageUrl_def encodeURIComponent_def replace_spaces_def uriUnreserved_def)
  have rendered: "get_recent_changes ?rt ?client (Inr [?trim])
      = Inr (''# Recent Changes\<newline>\<newline>'' @
             ''1. [edit] **Main Page** - Jan 5, 2024, 10:30 AM\<newline>'' @
             ''   By: Ann\<newline>   Comment: trim\<newline>   Size change: -20 bytes\<newline>'' @
             ''   URL: https://wiki.example.org/index.php/Main_Page\<newline>\<newline>'')"
    using w [THEN conjunct2, THEN conjunct2, THEN conjunct2, THEN conjunct2, THEN conjunct2,
             THEN conjunct2, THEN conjunct2, THEN conjunct1]
    by (simp add: changes_entry_def url or_text_def number_string_def digits.simps
        formatTimestamp_def changes_sizeDiff_def changes_diffText_def)
  show ?thesis
    by (intro conjI; (rule pos neg up rendered))
qed

section \<open>Timestamps: the rendering and the host\<close>

lemma half_day_flips:
  "((l + 720) mod 1440 div 60 < 12) = (\<not> (l mod 1440 div 60 < 12))" for l :: int
proof -
  define r where "r = l mod 1440"
  have r: "0 \<le> r" "r < 1440"
    by (simp_all add: r_def)
  have hour: "(x div 60 < 12) = (x < 720)" for x :: int
    by linarith
  have shifted: "(l + 720) mod 1440 = (r + 720) mod 1440"
    by (simp add: r_def mod_add_left_eq)
  show ?thesis
  proof (cases "r < 720")
    case True
    with r have "(r + 720) mod 1440 = r + 720"
      by simp
    with True r show ?thesis
      unfolding shifted r_def [symmetric] hour by simp
  next
    case False
    have "r + 720 = (r - 720) + 1440"
      by simp
    then have "(r + 720) mod 1440 = (r - 720) mod 1440"
      by (metis mod_add_self2)
    with False r have "(r + 720) mod 1440 = r - 720"
      by simp
    with False r show ?thesis
      unfolding shifted r_def [symmetric] hour by simp
  qed
qed

lemma en_US_short_period:
  "rev (en_US_short sep local) ! 1 =
     (if local mod 1440 div 60 < 12 then CHR ''A'' else CHR ''P'')"
  by (cases "civil_from_days (local div 1440)") (simp add: en_US_short_def Let_def)

lemma en_US_short_half_day: "en_US_short sep (local + 720) \<noteq> en_US_short sep local"
proof
  assume "en_US_short sep (local + 720) = en_US_short sep local"
  then have "rev (en_US_short sep (local + 720)) ! 1 = rev (en_US_short sep local) ! 1"
    by simp
  then show False
    unfolding en_US_short_period half_day_flips by (simp split: if_splits)
qed

text \<open>
  C9, as the code has it.  \<open>formatTimestamp\<close> returns what the runtime's
  \<open>toLocaleString\<close> returns for the timestamp.  On one host the rendering of a timestamp
  is the same at every evaluation and in every runtime: for a timestamp
  \<open>YYYY-MM-DDTHH:MM:SSZ\<close> it is month name, day, year and hour:minute with AM or PM of
  the host's local time.  It is not a function of the timestamp alone: no time zone is
  passed, and for every such timestamp a host at UTC and a host twelve hours east of it
  get different renderings.
\<close>

theorem formatTimestamp_host_rendering:
  "formatTimestamp rt timestamp = dateToLocaleString rt timestamp
   \<and> (runs_on rt h \<and> toLocaleString_en_US h timestamp = Some s \<longrightarrow>
        formatTimestamp rt timestamp = s)
   \<and> (runs_on rt h \<and> runs_on rt' h \<and> toLocaleString_en_US h timestamp = Some s \<longrightarrow>
        formatTimestamp rt timestamp = formatTimestamp rt' timestamp)
   \<and> (parse_timestamp t = Some utc \<and> - 1440 < localTZA h utc \<and> localTZA h utc < 1440 \<longrightarrow>
        toLocaleString_en_US h (JStr t)
          = Some (en_US_short (dayPeriodSpace h) (utc + localTZA h utc)))
   \<and> (parse_timestamp t = Some utc
        \<and> runs_on rt \<lparr> localTZA = (\<lambda>_. 0), dayPeriodSpace = sep \<rparr>
        \<and> runs_on rt' \<lparr> localTZA = (\<lambda>_. 720), dayPeriodSpace = sep \<rparr> \<longrightarrow>
        formatTimestamp rt (JStr t) \<noteq> formatTimestamp rt' (JStr t))"
proof -
  have same: "formatTimestamp rt timestamp = dateToLocaleString rt timestamp"
    by (simp add: formatTimestamp_def)
  have hosted: "runs_on rt h \<and> toLocaleString_en_US h timestamp = Some s \<longrightarrow>
        formatTimestamp rt timestamp = s"
    by (simp add: formatTimestamp_def runs_on_def)
  have one_host: "runs_on rt h \<and> runs_on rt' h \<and> toLocaleString_en_US h timestamp = Some s
      \<longrightarrow> formatTimestamp rt timestamp = formatTimestamp rt' timestamp"
    by (simp add: formatTimestamp_def runs_on_def)
  have local: "parse_timestamp t = Some utc \<and> - 1440 < localTZA h utc \<and> localTZA h utc < 1440
      \<longrightarrow> toLocaleString_en_US h (JStr t)
          = Some (en_US_short (dayPeriodSpace h) (utc + localTZA h utc))"
    by (simp add: toLocaleString_en_US_def Let_def)
  have two_hosts: "parse_timestamp t = Some utc
        \<and> runs_on rt \<lparr> localTZA = (\<lambda>_. 0), dayPeriodSpace = sep \<rparr>
        \<and> runs_on rt' \<lparr> localTZA = (\<lambda>_. 720), dayPeriodSpace = sep \<rparr> \<longrightarrow>
        formatTimestamp rt (JStr t) \<noteq> formatTimestamp rt' (JStr t)"
  proof
    assume a: "parse_timestamp t = Some utc
        \<and> runs_on rt \<lparr> localTZA = (\<lambda>_. 0), dayPeriodSpace = sep \<rparr>
        \<and> runs_on rt' \<lparr> localTZA = (\<lambda>_. 720), dayPeriodSpace = sep \<rparr>"
    have west: "toLocaleString_en_US \<lparr> localTZA = (\<lambda>_. 0), dayPeriodSpace = sep \<rparr> (JStr t)
        = Some (en_US_short sep utc)"
      using a by (simp add: toLocaleString_en_US_def)
    have east: "toLocaleString_en_US \<lparr> localTZA = (\<lambda>_. 720), dayPeriodSpace = sep \<rparr> (JStr t)
        = Some (en_US_short sep (utc + 720))"
      using a by (simp add: toLocaleString_en_US_def)
    have "formatTimestamp rt (JStr t) = en_US_short sep utc"
      using a west by (simp add: formatTimestamp_def runs_on_def)
    moreover have "formatTimestamp rt' (JStr t) = en_US_short sep (utc + 720)"
      using a east by (simp add: formatTimestamp_def runs_on_def)
    ultimately show "formatTimestamp rt (JStr t) \<noteq> formatTimestamp rt' (JStr t)"
      using en_US_short_half_day [of sep utc] by simp
  qed
  show ?thesis
    by (intro conjI; (rule same hosted one_host local two_hosts))
qed

theorem formatTimestamp_host_rendering_witness:
  "parse_timestamp ''2024-01-05T10:30:00Z'' = Some 28407510
   \<and> runs_on
       \<lparr> dateToLocaleString =
           (\<lambda>v. case toLocaleString_en_US \<lparr> localTZA = (\<lambda>_. 0), dayPeriodSpace = '' '' \<rparr> v of
                  Some s \<Rightarrow> s | None \<Rightarrow> ''Invalid Date''),
         toUpperCase = (\<lambda>s. s) \<rparr>
       \<lparr> localTZA = (\<lambda>_. 0), dayPeriodSpace = '' '' \<rparr>
   \<and> runs_on
       \<lparr> dateToLocaleString =
           (\<lambda>v. case toLocaleString_en_US \<lparr> localTZA = (\<lambda>_. 720), dayPeriodSpace = '' '' \<rparr> v of
                  Some s \<Rightarrow> s | None \<Rightarrow> ''Invalid Date''),
         toUpperCase = (\<lambda>s. s) \<rparr>
       \<lparr> localTZA = (\<lambda>_. 720), dayPeriodSpace = '' '' \<rparr>
   \<and> formatTimestamp
       \<lparr> dateToLocaleString =
           (\<lambda>v. case toLocaleString_en_US \<lparr> localTZA = (\<lambda>_. 0), dayPeriodSpace = '' '' \<rparr> v of
                  Some s \<Rightarrow> s | None \<Rightarrow> ''Invalid Date''),
         toUpperCase = (\<lambda>s. s) \<rparr>
       (JStr ''2024-01-05T10:30:00Z'')
     = ''Jan 5, 2024, 10:30 AM''
   \<and> formatTimestamp
       \<lparr> dateToLocaleString =
           (\<lambda>v. case toLocaleString_en_US \<lparr> localTZA = (\<lambda>_. 0), dayPeriodSpace = '' '' \<rparr> v of
                  Some s \<Rightarrow> s | None \<Rightarrow> ''Invalid Date''),
         toUpperCase = (\<lambda>s. s) \<rparr>
       (JStr ''2024-01-05T10:30:00Z'')
     \<noteq> formatTimestamp
       \<lparr> dateToLocaleString =
           (\<lambda>v. case toLocaleString_en_US \<lparr> localTZA = (\<lambda>_. 720), dayPeriodSpace = '' '' \<rparr> v of
                  Some s \<Rightarrow> s | None \<Rightarrow> ''Invalid Date''),
         toUpperCase = (\<lambda>s. s) \<rparr>
       (JStr ''2024-01-05T10:30:00Z'')"
proof -
  let ?utc = "\<lparr> localTZA = (\<lambda>_::int. 0::int), dayPeriodSpace = '' '' \<rparr>"
  let ?east = "\<lparr> localTZA = (\<lambda>_::int. 720::int), dayPeriodSpace = '' '' \<rparr>"
  let ?rt = "\<lparr> dateToLocaleString =
         (\<lambda>v. case toLocaleString_en_US ?utc v of Some s \<Rightarrow> s | None \<Rightarrow> ''Invalid Date''),
       toUpperCase = (\<lambda>s::string. s) \<rparr>"
  let ?rt' = "\<lparr> dateToLocaleString =
         (\<lambda>v. case toLocaleString_en_US ?east v of Some s \<Rightarrow> s | None \<Rightarrow> ''Invalid Date''),
       toUpperCase = (\<lambda>s::string. s) \<rparr>"
  have r: "runs_on ?rt ?utc"
    by (simp add: runs_on_def)
  have r': "runs_on ?rt' ?east"
    by (simp add: runs_on_def)
  have p: "parse_timestamp ''2024-01-05T10:30:00Z'' = Some 28407510"
    by code_simp
  have z: "- 1440 < localTZA ?utc 28407510 \<and> localTZA ?utc 28407510 < 1440"
    by simp
  have e: "en_US_short '' '' 28407510 = ''Jan 5, 2024, 10:30 AM''"
    by code_simp
  note w = formatTimestamp_host_rendering
      [where rt = ?rt and rt' = ?rt' and h = ?utc and t = "''2024-01-05T10:30:00Z''"
         and utc = 28407510 and timestamp = "JStr ''2024-01-05T10:30:00Z''"
         and s = "''Jan 5, 2024, 10:30 AM''" and sep = "'' ''"]
  have l: "toLocaleString_en_US ?utc (JStr ''2024-01-05T10:30:00Z'')
      = Some ''Jan 5, 2024, 10:30 AM''"
    using w [THEN conjunct2, THEN conjunct2, THEN conjunct2, THEN conjunct1] p z e by simp
  have f: "formatTimestamp ?rt (JStr ''2024-01-05T10:30:00Z'') = ''Jan 5, 2024, 10:30 AM''"
    using w [THEN conjunct2, THEN conjunct1] r l by blast
  have d: "formatTimestamp ?rt (JStr ''2024-01-05T10:30:00Z'')
      \<noteq> formatTimestamp ?rt' (JStr ''2024-01-05T10:30:00Z'')"
    using w [THEN conjunct2, THEN conjunct2, THEN conjunct2, THEN conjunct2] p r r' by blast
  show ?thesis
    by (intro conjI; (rule p r r' f d))
qed

text \<open>
  C9, as the specification words it, fails: the timestamp \<open>2024-01-05T10:30:00Z\<close> is
  rendered \<open>10:30 AM\<close> on a host at UTC, \<open>05:30 AM\<close> on a host five hours west of it and
  \<open>07:30 PM\<close> on a host nine hours east of it.
\<close>

theorem formatTimestamp_time_zone_counterexample:
  "formatTimestamp
     \<lparr> dateToLocaleString =
         (\<lambda>v. case toLocaleString_en_US \<lparr> localTZA = (\<lambda>_. 0), dayPeriodSpace = '' '' \<rparr> v of
                Some s \<Rightarrow> s | None \<Rightarrow> ''Invalid Date''),
       toUpperCase = (\<lambda>s. s) \<rparr>
     (JStr ''2024-01-05T10:30:00Z'')
     = ''Jan 5, 2024, 10:30 AM''
   \<and> formatTimestamp
     \<lparr> dateToLocaleString =
         (\<lambda>v. case toLocaleString_en_US \<lparr> localTZA = (\<lambda>_. - 300), dayPeriodSpace = '' '' \<rparr> v of
                Some s \<Rightarrow> s | None \<Rightarrow> ''Invalid Date''),
       toUpperCase = (\<lambda>s. s) \<rparr>
     (JStr ''2024-01-05T10:30:00Z'')
     = ''Jan 5, 2024, 05:30 AM''
   \<and> formatTimestamp
     \<lparr> dateToLocaleString =
         (\<lambda>v. case toLocaleString_en_US \<lparr> localTZA = (\<lambda>_. 540), dayPeriodSpace = '' '' \<rparr> v of
                Some s \<Rightarrow> s | None \<Rightarrow> ''Invalid Date''),
       toUpperCase = (\<lambda>s. s) \<rparr>
     (JStr ''2024-01-05T10:30:00Z'')
     = ''Jan 5, 2024, 07:30 PM''
   \<and> ''Jan 5, 2024, 10:30 AM'' \<noteq> ''Jan 5, 2024, 05:30 AM''"
  by code_simp

end
